theory Spec2Isabelle
  imports Main "HOL-Library.Sublist"
begin

section \<open>The dialect layer of \<^verbatim>\<open>src/lib/prisma.ts\<close>\<close>

text \<open>
  The module builds SQL text for two engines. JavaScript strings are modelled as
  \<^typ>\<open>string\<close> (a \<^typ>\<open>char\<close> stands for one code unit below 256; the templates of
  the module are ASCII), JavaScript numbers that count rows and pages as \<^typ>\<open>int\<close>,
  \<^verbatim>\<open>undefined\<close> as \<^term>\<open>None\<close>, and a rejected promise or a thrown error as the
  left injection of a sum.
\<close>

subsection \<open>The active engine\<close>

text \<open>
  \<^verbatim>\<open>getDatabaseType()\<close> of \<^verbatim>\<open>lib/db\<close> is called by every function; its result is the
  first argument of the model. \<open>UNKNOWN_DB\<close> stands for every value other than the
  two constants the module compares with.
\<close>

datatype database = POSTGRESQL | MYSQL | UNKNOWN_DB

subsection \<open>Numbers in template literals\<close>

definition digit_char :: "nat \<Rightarrow> char" where
  "digit_char d = ''0123456789'' ! (d mod 10)"

fun string_of_nat :: "nat \<Rightarrow> string" where
  "string_of_nat n =
     (if n < 10 then [digit_char n] else string_of_nat (n div 10) @ [digit_char n])"

declare string_of_nat.simps [simp del]

definition string_of_int :: "int \<Rightarrow> string" where
  "string_of_int i =
     (if i < 0 then CHR ''-'' # string_of_nat (nat (- i)) else string_of_nat (nat i))"

subsection \<open>SQL fragment generators\<close>

text \<open>
  Each generator returns \<^verbatim>\<open>undefined\<close> (\<^term>\<open>None\<close>) when the engine is neither of the
  two: the source falls off the end of the function. \<^verbatim>\<open>moment.tz(timezone).format('Z')\<close>
  reads the wall clock and the time-zone database: it is the UTC offset that the zone has
  at the instant of the call. The model takes that reading as the argument \<open>tzNow\<close>.
\<close>

definition getAddIntervalQuery :: "database \<Rightarrow> string \<Rightarrow> string \<Rightarrow> string option" where
  "getAddIntervalQuery db field interval =
     (if db = POSTGRESQL then Some (field @ '' + interval '' @ [CHR 0x27] @ interval @ [CHR 0x27])
      else if db = MYSQL then Some (''DATE_ADD('' @ field @ '', interval '' @ interval @ '')'')
      else None)"

definition getDayDiffQuery :: "database \<Rightarrow> string \<Rightarrow> string \<Rightarrow> string option" where
  "getDayDiffQuery db field1 field2 =
     (if db = POSTGRESQL then Some (field1 @ ''::date - '' @ field2 @ ''::date'')
      else if db = MYSQL then Some (''DATEDIFF('' @ field1 @ '', '' @ field2 @ '')'')
      else None)"

definition getCastColumnQuery :: "database \<Rightarrow> string \<Rightarrow> string \<Rightarrow> string option" where
  "getCastColumnQuery db field ty =
     (if db = POSTGRESQL then Some (field @ ''::'' @ ty)
      else if db = MYSQL then Some field
      else None)"

text \<open>The two format tables, as maps from the unit: their own entries.\<close>

definition MYSQL_DATE_FORMATS :: "string \<rightharpoonup> string" where
  "MYSQL_DATE_FORMATS =
     [''minute'' \<mapsto> ''%Y-%m-%dT%H:%i:00'',
      ''hour'' \<mapsto> ''%Y-%m-%d %H:00:00'',
      ''day'' \<mapsto> ''%Y-%m-%d 00:00:00'',
      ''month'' \<mapsto> ''%Y-%m-01 00:00:00'',
      ''year'' \<mapsto> ''%Y-01-01 00:00:00'']"

definition POSTGRESQL_DATE_FORMATS :: "string \<rightharpoonup> string" where
  "POSTGRESQL_DATE_FORMATS =
     [''minute'' \<mapsto> ''YYYY-MM-DD HH24:MI:00'',
      ''hour'' \<mapsto> ''YYYY-MM-DD HH24:00:00'',
      ''day'' \<mapsto> ''YYYY-MM-DD HH24:00:00'',
      ''month'' \<mapsto> ''YYYY-MM-01 HH24:00:00'',
      ''year'' \<mapsto> ''YYYY-01-01 HH24:00:00'']"

text \<open>
  A property read \<^verbatim>\<open>object[key]\<close> gives the object's own entry when it has one and
  otherwise what the prototype chain gives. The objects of this module (the two tables,
  a parameter object written as a literal) have the prototype \<^verbatim>\<open>Object.prototype\<close>,
  whose members are these twelve; every other key reads \<^verbatim>\<open>undefined\<close>.
\<close>

definition Object_prototype_names :: "string list" where
  "Object_prototype_names =
     [''constructor'', ''__defineGetter__'', ''__defineSetter__'', ''hasOwnProperty'',
      ''__lookupGetter__'', ''__lookupSetter__'', ''isPrototypeOf'', ''propertyIsEnumerable'',
      ''toString'', ''valueOf'', ''__proto__'', ''toLocaleString'']"

text \<open>
  What a template literal prints for an inherited member: \<^verbatim>\<open>__proto__\<close> is the
  prototype object itself, the others are built-in functions, printed by Node as below
  (\<^verbatim>\<open>constructor\<close> is the function \<^verbatim>\<open>Object\<close>).
\<close>

definition inherited_text :: "string \<Rightarrow> string" where
  "inherited_text key =
     (if key = ''__proto__'' then ''[object Object]''
      else ''function '' @ (if key = ''constructor'' then ''Object'' else key)
        @ ''() { [native code] }'')"

text \<open>The text that \<^verbatim>\<open>${TABLE[key]}\<close> splices, for a table of strings.\<close>

definition table_read :: "(string \<rightharpoonup> string) \<Rightarrow> string \<Rightarrow> string" where
  "table_read table key =
     (case table key of
        Some s \<Rightarrow> s
      | None \<Rightarrow> if key \<in> set Object_prototype_names then inherited_text key else ''undefined'')"

text \<open>A value spliced into a template literal: \<^verbatim>\<open>undefined\<close> prints as that word.\<close>

definition splice :: "string option \<Rightarrow> string" where
  "splice v = (case v of None \<Rightarrow> ''undefined'' | Some s \<Rightarrow> s)"

text \<open>The truth value of an optional string: absent and empty are both false.\<close>

definition truthy :: "string option \<Rightarrow> bool" where
  "truthy v = (case v of None \<Rightarrow> False | Some s \<Rightarrow> s \<noteq> [])"

definition getDateSQL ::
  "database \<Rightarrow> (string option \<Rightarrow> string) \<Rightarrow> string \<Rightarrow> string \<Rightarrow> string option \<Rightarrow> string option"
where
  "getDateSQL db tzNow field unit timezone =
     (if db = POSTGRESQL then
        (if truthy timezone then
           Some (''to_char(date_trunc('' @ [CHR 0x27] @ unit @ [CHR 0x27] @ '', '' @ field
             @ '' at time zone '' @ [CHR 0x27] @ splice timezone @ [CHR 0x27] @ ''), ''
             @ [CHR 0x27] @ table_read POSTGRESQL_DATE_FORMATS unit @ [CHR 0x27] @ '')'')
         else
           Some (''to_char(date_trunc('' @ [CHR 0x27] @ unit @ [CHR 0x27] @ '', '' @ field
             @ ''), '' @ [CHR 0x27] @ table_read POSTGRESQL_DATE_FORMATS unit @ [CHR 0x27] @ '')''))
      else if db = MYSQL then
        (if truthy timezone then
           Some (''date_format(convert_tz('' @ field @ '','' @ [CHR 0x27] @ ''+00:00''
             @ [CHR 0x27] @ '','' @ [CHR 0x27] @ tzNow timezone @ [CHR 0x27] @ ''), ''
             @ [CHR 0x27] @ table_read MYSQL_DATE_FORMATS unit @ [CHR 0x27] @ '')'')
         else
           Some (''date_format('' @ field @ '', '' @ [CHR 0x27]
             @ table_read MYSQL_DATE_FORMATS unit @ [CHR 0x27] @ '')''))
      else None)"

definition getDateWeeklySQL ::
  "database \<Rightarrow> (string option \<Rightarrow> string) \<Rightarrow> string \<Rightarrow> string option \<Rightarrow> string option"
where
  "getDateWeeklySQL db tzNow field timezone =
     (if db = POSTGRESQL then
        Some (''concat(extract(dow from ('' @ field @ '' at time zone '' @ [CHR 0x27]
          @ splice timezone @ [CHR 0x27] @ '')), '' @ [CHR 0x27] @ '':'' @ [CHR 0x27]
          @ '', to_char(('' @ field @ '' at time zone '' @ [CHR 0x27] @ splice timezone
          @ [CHR 0x27] @ ''), '' @ [CHR 0x27] @ ''HH24'' @ [CHR 0x27] @ ''))'')
      else if db = MYSQL then
        Some (''date_format(convert_tz('' @ field @ '','' @ [CHR 0x27] @ ''+00:00''
          @ [CHR 0x27] @ '','' @ [CHR 0x27] @ tzNow timezone @ [CHR 0x27] @ ''), ''
          @ [CHR 0x27] @ ''%w:%H'' @ [CHR 0x27] @ '')'')
      else None)"

definition getTimestampSQL :: "database \<Rightarrow> string \<Rightarrow> string option" where
  "getTimestampSQL db field =
     (if db = POSTGRESQL then Some (''floor(extract(epoch from '' @ field @ ''))'')
      else if db = MYSQL then Some (''UNIX_TIMESTAMP('' @ field @ '')'')
      else None)"

definition getTimestampDiffSQL :: "database \<Rightarrow> string \<Rightarrow> string \<Rightarrow> string option" where
  "getTimestampDiffSQL db field1 field2 =
     (if db = POSTGRESQL then
        Some (''floor(extract(epoch from ('' @ field2 @ '' - '' @ field1 @ '')))'')
      else if db = MYSQL then
        Some (''timestampdiff(second, '' @ field1 @ '', '' @ field2 @ '')'')
      else None)"

definition like_operator :: "database \<Rightarrow> string" where
  "like_operator db = (if db = POSTGRESQL then ''ilike'' else ''like'')"

definition getSearchSQL :: "database \<Rightarrow> string \<Rightarrow> string" where
  "getSearchSQL db column = ''and '' @ column @ '' '' @ like_operator db @ '' {{search}}''"

subsection \<open>The template binder\<close>

text \<open>
  \<^verbatim>\<open>rawQuery\<close> rewrites the template with
  \<^verbatim>\<open>sql.replaceAll(/\{\{\s*(\w+)(::\w+)?\s*}}/g, callback)\<close>.
  The character classes are those of a JavaScript regular expression without the
  \<^verbatim>\<open>u\<close> flag, on code units below 256.
\<close>

definition is_space :: "char \<Rightarrow> bool" where
  "is_space c \<longleftrightarrow>
     c \<in> set [CHR 0x09, CHR 0x0A, CHR 0x0B, CHR 0x0C, CHR 0x0D, CHR 0x20, CHR 0xA0]"

definition is_word :: "char \<Rightarrow> bool" where
  "is_word c \<longleftrightarrow>
     c \<in> set (''abcdefghijklmnopqrstuvwxyz'' @ ''ABCDEFGHIJKLMNOPQRSTUVWXYZ''
       @ ''0123456789'' @ ''_'')"

text \<open>
  The optional group \<^verbatim>\<open>(::\w+)?\<close> at the head of a string: the captured text (with
  its two colons) and what follows it. The group is skipped when it does not match.
\<close>

definition type_hint :: "string \<Rightarrow> string option \<times> string" where
  "type_hint s =
     (case s of
        a # b # r \<Rightarrow>
          if a = CHR '':'' \<and> b = CHR '':'' \<and> takeWhile is_word r \<noteq> []
          then (Some ('':'' @ '':'' @ takeWhile is_word r), dropWhile is_word r)
          else (None, s)
      | _ \<Rightarrow> (None, s))"

text \<open>
  One attempt of the regular expression at the head of a string: the two captured
  groups and the text after the match. The classes \<^verbatim>\<open>\s\<close>, \<^verbatim>\<open>\w\<close>, the colon and
  the braces are pairwise disjoint, so every greedy quantifier has exactly one extent
  that can lead to a match and backtracking finds nothing else; the lemmas
  \<open>match_placeholder_complete\<close> and \<open>match_placeholder_sound\<close> below state this.
\<close>

definition match_placeholder :: "string \<Rightarrow> (string \<times> string option \<times> string) option" where
  "match_placeholder s =
     (case s of
        c1 # c2 # r0 \<Rightarrow>
          if c1 = CHR 0x7B \<and> c2 = CHR 0x7B then
            (let r1 = dropWhile is_space r0;
                 name = takeWhile is_word r1;
                 r2 = dropWhile is_word r1;
                 (ty, r3) = type_hint r2;
                 r4 = dropWhile is_space r3
             in if name = [] then None
                else (case r4 of
                        d1 # d2 # rest \<Rightarrow>
                          if d1 = CHR 0x7D \<and> d2 = CHR 0x7D then Some (name, ty, rest) else None
                      | _ \<Rightarrow> None))
          else None
      | _ \<Rightarrow> None)"

lemma length_dropWhile_le_aux: "length (dropWhile P xs) \<le> length xs"
  by (induction xs) auto

lemma type_hint_length: "type_hint s = (ty, r) \<Longrightarrow> length r \<le> length s"
  by (auto simp: type_hint_def split: list.splits if_splits
      intro: le_trans [OF length_dropWhile_le_aux])

lemma match_placeholder_shorter:
  assumes "match_placeholder s = Some (name, ty, rest)"
  shows "length rest < length s"
proof -
  from assms obtain r0 where s: "s = CHR 0x7B # CHR 0x7B # r0"
    by (auto simp: match_placeholder_def split: list.splits if_splits)
  define r2 where "r2 = dropWhile is_word (dropWhile is_space r0)"
  obtain ty' r3 where th: "type_hint r2 = (ty', r3)"
    by (cases "type_hint r2") auto
  from assms s th have "dropWhile is_space r3 = CHR 0x7D # CHR 0x7D # rest"
    by (auto simp: match_placeholder_def Let_def r2_def split: list.splits if_splits)
  then have "length rest < length (dropWhile is_space r3)"
    by simp
  also have "\<dots> \<le> length r3"
    by (rule length_dropWhile_le_aux)
  also have "\<dots> \<le> length r2"
    using th by (rule type_hint_length)
  also have "\<dots> \<le> length r0"
    unfolding r2_def
    by (rule le_trans [OF length_dropWhile_le_aux length_dropWhile_le_aux])
  finally show ?thesis
    using s by simp
qed

text \<open>
  \<^verbatim>\<open>replaceAll\<close> with a global pattern: the attempts go left to right, a match is
  replaced by what the callback returns and the scan goes on after the match, a code
  unit where no match starts is copied. The callback of the source pushes on the array
  \<open>params\<close>; the model threads that state through the calls.
\<close>

function replaceAll_placeholders ::
  "(string \<Rightarrow> string option \<Rightarrow> 's \<Rightarrow> string \<times> 's) \<Rightarrow> 's \<Rightarrow> string \<Rightarrow> string \<times> 's"
where
  "replaceAll_placeholders f st [] = ([], st)"
| "replaceAll_placeholders f st (c # cs) =
     (case match_placeholder (c # cs) of
        Some (name, ty, rest) \<Rightarrow>
          (let (rep, st1) = f name ty st;
               (out, st2) = replaceAll_placeholders f st1 rest
           in (rep @ out, st2))
      | None \<Rightarrow>
          (let (out, st1) = replaceAll_placeholders f st cs in (c # out, st1)))"
  by pat_completeness auto
termination
  by (relation "measure (\<lambda>(f, st, s). length s)")
    (auto dest: match_placeholder_shorter)

declare replaceAll_placeholders.simps(2) [simp del]

text \<open>
  The callback: \<^verbatim>\<open>data[name]\<close> is pushed, and the marker is \<^verbatim>\<open>?\<close> on MySQL and
  \<^verbatim>\<open>$\<close>, the new length of the array and the captured type hint otherwise.
  The argument \<open>data\<close> is the property read of the parameter object, as a function of
  the name: \<^term>\<open>None\<close> where the read gives \<^verbatim>\<open>undefined\<close>. The read goes through the
  prototype chain; \<open>object_read\<close> below is the read of an ordinary object.
\<close>

definition bind_callback ::
  "database \<Rightarrow> (string \<rightharpoonup> 'v) \<Rightarrow> string \<Rightarrow> string option \<Rightarrow> 'v option list
     \<Rightarrow> string \<times> 'v option list"
where
  "bind_callback db data name ty params =
     (let params' = params @ [data name]
      in (if db = MYSQL then ''?''
          else ''$'' @ string_of_nat (length params') @ (case ty of None \<Rightarrow> [] | Some t \<Rightarrow> t),
          params'))"

text \<open>
  The read \<^verbatim>\<open>data[name]\<close> of an ordinary object with the own entries \<open>own\<close>: the own
  value, or the inherited member of that name, or \<^verbatim>\<open>undefined\<close>.
\<close>

datatype 'v js_value = Own 'v | Inherited string

definition object_read :: "(string \<rightharpoonup> 'v) \<Rightarrow> string \<rightharpoonup> 'v js_value" where
  "object_read own key =
     (case own key of
        Some v \<Rightarrow> Some (Own v)
      | None \<Rightarrow> if key \<in> set Object_prototype_names then Some (Inherited key) else None)"

datatype error = UnknownDatabase | TypeError | ExecutionError string

text \<open>
  \<^verbatim>\<open>rawQuery\<close>: \<open>exec\<close> is \<^verbatim>\<open>prisma.rawQuery\<close>, the collaborator that runs the statement.
  The diagnostic output under \<^verbatim>\<open>LOG_QUERY\<close> does not change the result and is left out.
\<close>

definition rawQuery ::
  "database \<Rightarrow> (string \<Rightarrow> 'v option list \<Rightarrow> error + 'r) \<Rightarrow> string \<Rightarrow> (string \<rightharpoonup> 'v)
     \<Rightarrow> error + 'r"
where
  "rawQuery db exec sql data =
     (if db \<noteq> POSTGRESQL \<and> db \<noteq> MYSQL then Inl UnknownDatabase
      else (let (query, params) = replaceAll_placeholders (bind_callback db data) [] sql
            in exec query params))"

subsection \<open>The filter compiler\<close>

text \<open>
  Modelled from the spec: the table \<^verbatim>\<open>OPERATORS\<close> of \<^verbatim>\<open>./constants\<close> is not under
  \<^verbatim>\<open>src/\<close>. The spec gives the operator of a filter as the enumeration equals,
  notEquals, contains, doesNotContain; \<open>other_operator\<close> stands for every other
  value that a filter can carry.
\<close>

datatype operator = equals | notEquals | contains | doesNotContain | other_operator string

datatype scalar = SStr string | SNum int

definition string_of_scalar :: "scalar \<Rightarrow> string" where
  "string_of_scalar v = (case v of SStr s \<Rightarrow> s | SNum n \<Rightarrow> string_of_int n)"

text \<open>An element of the array that \<^verbatim>\<open>filtersToArray\<close> returns.\<close>

record filter_item =
  name :: string
  column :: "string option"
  operator :: operator
  fvalue :: scalar

text \<open>A value of the parameter map: a filter value, a date (milliseconds), or \<^verbatim>\<open>undefined\<close>.\<close>

datatype param = PVal scalar | PDate int | PUndefined

text \<open>
  \<^verbatim>\<open>QueryFilters\<close>: the two dates that the module reads, and \<^verbatim>\<open>Object.keys(filters)\<close>.
  The array form of the filters is computed by \<^verbatim>\<open>filtersToArray\<close> of \<^verbatim>\<open>./params\<close>,
  which is not under \<^verbatim>\<open>src/\<close>: the model takes it as the argument \<open>filtersToArray\<close>,
  called with the options or without them as the source does.
\<close>

record query_filters =
  startDate :: "int option"
  endDate :: "int option"
  filter_keys :: "string list"

record query_options =
  joinSession :: bool

type_synonym filters_to_array = "query_filters \<Rightarrow> query_options option \<Rightarrow> filter_item list"

definition mapFilter :: "database \<Rightarrow> string \<Rightarrow> operator \<Rightarrow> string \<Rightarrow> string \<Rightarrow> string" where
  "mapFilter db col op nm ty =
     (let like = like_operator db;
          v = ''{{'' @ nm @ (if ty \<noteq> [] then ''::'' @ ty else []) @ ''}}''
      in case op of
           equals \<Rightarrow> col @ '' = '' @ v
         | notEquals \<Rightarrow> col @ '' != '' @ v
         | contains \<Rightarrow> col @ '' '' @ like @ '' '' @ v
         | doesNotContain \<Rightarrow> col @ '' not '' @ like @ '' '' @ v
         | other_operator _ \<Rightarrow> [])"

definition referrer_exclusion :: string where
  "referrer_exclusion =
     ''and (website_event.referrer_domain != {{websiteDomain}} or website_event.referrer_domain is null)''"

text \<open>The callback of the \<^verbatim>\<open>reduce\<close> in \<^verbatim>\<open>getFilterQuery\<close>; \<^verbatim>\<open>push\<close> appends.\<close>

definition filter_query_step :: "database \<Rightarrow> filter_item \<Rightarrow> string list \<Rightarrow> string list" where
  "filter_query_step db f arr =
     (case column f of
        None \<Rightarrow> arr
      | Some col \<Rightarrow>
          if col = [] then arr
          else (let arr1 = arr @ [''and '' @ mapFilter db col (operator f) (name f) []]
                in if name f = ''referrer'' then arr1 @ [referrer_exclusion] else arr1))"

fun join :: "string \<Rightarrow> string list \<Rightarrow> string" where
  "join sep [] = []"
| "join sep [x] = x"
| "join sep (x # y # ys) = x @ sep @ join sep (y # ys)"

definition getFilterQuery_lines ::
  "database \<Rightarrow> filters_to_array \<Rightarrow> query_filters \<Rightarrow> query_options \<Rightarrow> string list"
where
  "getFilterQuery_lines db filtersToArray filters options =
     fold (filter_query_step db) (filtersToArray filters (Some options)) []"

definition getFilterQuery ::
  "database \<Rightarrow> filters_to_array \<Rightarrow> query_filters \<Rightarrow> query_options \<Rightarrow> string"
where
  "getFilterQuery db filtersToArray filters options =
     join [CHR 0x0A] (getFilterQuery_lines db filtersToArray filters options)"

definition getDateQuery :: "query_filters \<Rightarrow> string" where
  "getDateQuery filters =
     (if startDate filters \<noteq> None then
        (if endDate filters \<noteq> None
         then ''and website_event.created_at between {{startDate}} and {{endDate}}''
         else ''and website_event.created_at >= {{startDate}}'')
      else [])"

definition filter_param_step :: "filter_item \<Rightarrow> (string \<rightharpoonup> param) \<Rightarrow> (string \<rightharpoonup> param)" where
  "filter_param_step f obj =
     obj(name f \<mapsto>
       (if operator f \<in> set [contains, doesNotContain]
        then PVal (SStr (''%'' @ string_of_scalar (fvalue f) @ ''%''))
        else PVal (fvalue f)))"

definition getFilterParams :: "filters_to_array \<Rightarrow> query_filters \<Rightarrow> (string \<rightharpoonup> param)" where
  "getFilterParams filtersToArray filters =
     fold filter_param_step (filtersToArray filters None) Map.empty"

text \<open>
  Modelled from the spec: \<^verbatim>\<open>maxDate\<close> of \<^verbatim>\<open>./date\<close> is not under \<^verbatim>\<open>src/\<close>. The spec
  gives it as the later of the two dates, an absent bound being treated as the other's
  value.
\<close>

definition maxDate :: "int option \<Rightarrow> int option \<Rightarrow> int option" where
  "maxDate a b =
     (case a of
        None \<Rightarrow> b
      | Some x \<Rightarrow> (case b of None \<Rightarrow> Some x | Some y \<Rightarrow> Some (max x y)))"

record website =
  domain :: string
  resetAt :: "int option"

record parsed_filters =
  pf_joinSession :: string
  pf_filterQuery :: string
  pf_dateQuery :: string
  pf_params :: "string \<rightharpoonup> param"

definition date_param :: "int option \<Rightarrow> param" where
  "date_param d = (case d of None \<Rightarrow> PUndefined | Some t \<Rightarrow> PDate t)"

text \<open>
  \<^verbatim>\<open>parseFilters\<close>: \<open>fetchWebsite\<close> is the lookup of \<^verbatim>\<open>./load\<close> (it may reject, and it
  may resolve to \<^verbatim>\<open>null\<close>), \<open>SESSION_COLUMNS\<close> the constant of \<^verbatim>\<open>./constants\<close>.
  The spread \<^verbatim>\<open>...getFilterParams(filters)\<close> comes first in the object literal and the
  three named keys after it. \<^verbatim>\<open>website?.resetAt\<close> tolerates \<^verbatim>\<open>null\<close>,
  \<^verbatim>\<open>website.domain\<close> throws a TypeError on it.
\<close>

definition parseFilters ::
  "database \<Rightarrow> (string \<Rightarrow> error + website option) \<Rightarrow> filters_to_array \<Rightarrow> string list
     \<Rightarrow> string \<Rightarrow> query_filters \<Rightarrow> query_options \<Rightarrow> error + parsed_filters"
where
  "parseFilters db fetchWebsite filtersToArray SESSION_COLUMNS websiteId filters options =
     (case fetchWebsite websiteId of
        Inl e \<Rightarrow> Inl e
      | Inr site \<Rightarrow>
          (let found = find (\<lambda>key. key \<in> set SESSION_COLUMNS) (filter_keys filters)
           in case site of
                None \<Rightarrow> Inl TypeError
              | Some w \<Rightarrow>
                  Inr \<lparr>pf_joinSession =
                         (if joinSession options \<or> truthy found
                          then ''inner join session on website_event.session_id = session.session_id''
                          else []),
                       pf_filterQuery = getFilterQuery db filtersToArray filters options,
                       pf_dateQuery = getDateQuery filters,
                       pf_params =
                         (getFilterParams filtersToArray filters)
                           (''websiteId'' \<mapsto> PVal (SStr websiteId),
                            ''startDate'' \<mapsto> date_param (maxDate (startDate filters) (resetAt w)),
                            ''websiteDomain'' \<mapsto> PVal (SStr (domain w)))\<rparr>))"

subsection \<open>What the exclusion line means on a row\<close>




subsection \<open>The pagination wrapper\<close>

text \<open>
  \<^verbatim>\<open>PageParams\<close>; an absent field is \<^term>\<open>None\<close>. The numbers are integers in the model:
  \<^verbatim>\<open>+pageSize\<close> of an absent page size is \<^verbatim>\<open>NaN\<close>, which is false as zero is.
  \<^verbatim>\<open>DEFAULT_PAGE_SIZE\<close> of \<^verbatim>\<open>./constants\<close> is not under \<^verbatim>\<open>src/\<close>: it is the first
  argument of the functions that use it.

  The source computes in double precision. Sums and products of integers are those of
  the model, and a number prints as its decimal digits, as long as the operands and
  the result are safe integers (of magnitude below \<open>2\<^sup>5\<^sup>3\<close>); what is stated about
  \<^verbatim>\<open>skip\<close>, \<^verbatim>\<open>limit\<close> and \<^verbatim>\<open>offset\<close> is stated for that range.
\<close>

definition safe_integer :: "int \<Rightarrow> bool" where
  "safe_integer n \<longleftrightarrow> - 9007199254740991 \<le> n \<and> n \<le> 9007199254740991"

record page_params =
  page :: "int option"
  pageSize :: "int option"
  orderBy :: "string option"
  sortDescending :: "bool option"

definition effective_size :: "int \<Rightarrow> page_params \<Rightarrow> int" where
  "effective_size DEFAULT_PAGE_SIZE pp =
     (case pageSize pp of
        None \<Rightarrow> DEFAULT_PAGE_SIZE
      | Some n \<Rightarrow> if n = 0 then DEFAULT_PAGE_SIZE else n)"

definition effective_page :: "page_params \<Rightarrow> int" where
  "effective_page pp = (case page pp of None \<Rightarrow> 1 | Some p \<Rightarrow> p)"

definition direction :: "page_params \<Rightarrow> string" where
  "direction pp = (if sortDescending pp = Some True then ''desc'' else ''asc'')"

text \<open>A value of the argument object of \<^verbatim>\<open>findMany\<close>: one of the caller's, or one that is added.\<close>

datatype 'a arg = Criterion 'a | Number int | OrderBy "(string \<times> string) list"

text \<open>The object that is spread over the criteria: the later key wins.\<close>

definition paging_args :: "int \<Rightarrow> page_params \<Rightarrow> (string \<rightharpoonup> 'a arg)" where
  "paging_args DEFAULT_PAGE_SIZE pp =
     (let size = effective_size DEFAULT_PAGE_SIZE pp
      in (if size > 0
          then [''take'' \<mapsto> Number size, ''skip'' \<mapsto> Number (size * (effective_page pp - 1))]
          else Map.empty)
         ++ (case orderBy pp of
               None \<Rightarrow> Map.empty
             | Some ob \<Rightarrow>
                 if ob = [] then Map.empty
                 else [''orderBy'' \<mapsto> OrderBy [(ob, direction pp)]]))"

record ('d, 'c) paged =
  env_data :: 'd
  env_count :: 'c
  env_page :: int
  env_pageSize :: int
  env_orderBy :: "string option"

text \<open>
  \<^verbatim>\<open>pagedQuery\<close>: \<open>findMany\<close> and \<open>count_rows\<close> are \<^verbatim>\<open>prisma.client[model].findMany\<close>
  and \<^verbatim>\<open>prisma.client[model].count\<close>; the second receives \<^verbatim>\<open>criteria.where\<close> only.
\<close>

definition pagedQuery ::
  "int \<Rightarrow> (string \<Rightarrow> (string \<rightharpoonup> 'a arg) \<Rightarrow> error + 'd) \<Rightarrow> (string \<Rightarrow> 'a arg option \<Rightarrow> error + 'c)
     \<Rightarrow> string \<Rightarrow> (string \<rightharpoonup> 'a arg) \<Rightarrow> page_params \<Rightarrow> error + ('d, 'c) paged"
where
  "pagedQuery DEFAULT_PAGE_SIZE findMany count_rows model criteria pp =
     (case findMany model (criteria ++ paging_args DEFAULT_PAGE_SIZE pp) of
        Inl e \<Rightarrow> Inl e
      | Inr rows \<Rightarrow>
          (case count_rows model (criteria ''where'') of
             Inl e \<Rightarrow> Inl e
           | Inr n \<Rightarrow>
               Inr \<lparr>env_data = rows, env_count = n, env_page = effective_page pp,
                    env_pageSize = effective_size DEFAULT_PAGE_SIZE pp,
                    env_orderBy = orderBy pp\<rparr>))"

text \<open>The suffix that \<^verbatim>\<open>pagedRawQuery\<close> appends: the entries that are not false, joined by a newline.\<close>

definition statements :: "int \<Rightarrow> page_params \<Rightarrow> string" where
  "statements DEFAULT_PAGE_SIZE pp =
     (let size = effective_size DEFAULT_PAGE_SIZE pp;
          offset = size * (effective_page pp - 1)
      in join [CHR 0x0A]
           (map the (filter (\<lambda>n. truthy n)
             [case orderBy pp of
                None \<Rightarrow> None
              | Some ob \<Rightarrow> if ob = [] then Some [] else Some (''order by '' @ ob @ '' '' @ direction pp),
              if size > 0
              then Some (''limit '' @ string_of_int size @ '' offset '' @ string_of_int offset)
              else None])))"

definition count_query :: "string \<Rightarrow> string" where
  "count_query query = ''select count(*) as num from ('' @ query @ '') t''"

text \<open>
  \<^verbatim>\<open>pagedRawQuery\<close>: the count first (\<^verbatim>\<open>res[0].num\<close> throws a TypeError on an empty
  result), then the data.
\<close>

definition pagedRawQuery ::
  "int \<Rightarrow> database \<Rightarrow> (string \<Rightarrow> 'v option list \<Rightarrow> error + (string \<rightharpoonup> 'v) list) \<Rightarrow> string
     \<Rightarrow> (string \<rightharpoonup> 'v) \<Rightarrow> page_params \<Rightarrow> error + ((string \<rightharpoonup> 'v) list, 'v option) paged"
where
  "pagedRawQuery DEFAULT_PAGE_SIZE db exec query queryParams pp =
     (case rawQuery db exec (count_query query) queryParams of
        Inl e \<Rightarrow> Inl e
      | Inr res \<Rightarrow>
          (case res of
             [] \<Rightarrow> Inl TypeError
           | row # _ \<Rightarrow>
               (case rawQuery db exec (query @ statements DEFAULT_PAGE_SIZE pp) queryParams of
                  Inl e \<Rightarrow> Inl e
                | Inr rows \<Rightarrow>
                    Inr \<lparr>env_data = rows, env_count = row ''num'',
                         env_page = effective_page pp,
                         env_pageSize = effective_size DEFAULT_PAGE_SIZE pp,
                         env_orderBy = orderBy pp\<rparr>)))"

subsection \<open>What the engines compute for a date bucket\<close>

text \<open>
  The fragment of \<^verbatim>\<open>getDateSQL\<close> is evaluated by the engine, which is outside the
  repository. To compare the two format tables, the two formatting functions are
  modelled after the engines' manuals, for the directives that occur in the tables:
  MySQL's \<^verbatim>\<open>date_format\<close> replaces \<^verbatim>\<open>%Y %m %d %H %i\<close> and copies every other
  character; PostgreSQL's \<^verbatim>\<open>to_char\<close> replaces \<^verbatim>\<open>YYYY MM DD HH24 MI\<close> and copies
  every other character, and it is applied to the result of \<^verbatim>\<open>date_trunc\<close>. The
  timestamp is the local one, after the conversion to the time zone.
\<close>

record timestamp =
  ts_year :: nat
  ts_month :: nat
  ts_day :: nat
  ts_hour :: nat
  ts_minute :: nat
  ts_second :: nat

definition zero_pad :: "nat \<Rightarrow> nat \<Rightarrow> string" where
  "zero_pad w n = replicate (w - length (string_of_nat n)) (CHR ''0'') @ string_of_nat n"

definition mysql_specifier :: "char \<Rightarrow> timestamp \<Rightarrow> string" where
  "mysql_specifier c ts =
     (if c = CHR ''Y'' then zero_pad 4 (ts_year ts)
      else if c = CHR ''m'' then zero_pad 2 (ts_month ts)
      else if c = CHR ''d'' then zero_pad 2 (ts_day ts)
      else if c = CHR ''H'' then zero_pad 2 (ts_hour ts)
      else if c = CHR ''i'' then zero_pad 2 (ts_minute ts)
      else [c])"

fun mysql_date_format :: "string \<Rightarrow> timestamp \<Rightarrow> string" where
  "mysql_date_format [] ts = []"
| "mysql_date_format [c] ts = [c]"
| "mysql_date_format (c # d # r) ts =
     (if c = CHR ''%'' then mysql_specifier d ts @ mysql_date_format r ts
      else c # mysql_date_format (d # r) ts)"

function pg_to_char :: "string \<Rightarrow> timestamp \<Rightarrow> string" where
  "pg_to_char s ts =
     (if s = [] then []
      else if prefix ''YYYY'' s then zero_pad 4 (ts_year ts) @ pg_to_char (drop 4 s) ts
      else if prefix ''HH24'' s then zero_pad 2 (ts_hour ts) @ pg_to_char (drop 4 s) ts
      else if prefix ''MM'' s then zero_pad 2 (ts_month ts) @ pg_to_char (drop 2 s) ts
      else if prefix ''DD'' s then zero_pad 2 (ts_day ts) @ pg_to_char (drop 2 s) ts
      else if prefix ''MI'' s then zero_pad 2 (ts_minute ts) @ pg_to_char (drop 2 s) ts
      else hd s # pg_to_char (tl s) ts)"
  by pat_completeness auto
termination
  by (relation "measure (\<lambda>(s, ts). length s)") (auto simp: neq_Nil_conv)

declare pg_to_char.simps [simp del]

definition date_trunc :: "string \<Rightarrow> timestamp \<Rightarrow> timestamp option" where
  "date_trunc unit ts =
     (if unit = ''minute'' then Some (ts\<lparr>ts_second := 0\<rparr>)
      else if unit = ''hour'' then Some (ts\<lparr>ts_minute := 0, ts_second := 0\<rparr>)
      else if unit = ''day'' then Some (ts\<lparr>ts_hour := 0, ts_minute := 0, ts_second := 0\<rparr>)
      else if unit = ''month'' then
        Some (ts\<lparr>ts_day := 1, ts_hour := 0, ts_minute := 0, ts_second := 0\<rparr>)
      else if unit = ''year'' then
        Some (ts\<lparr>ts_month := 1, ts_day := 1, ts_hour := 0, ts_minute := 0, ts_second := 0\<rparr>)
      else None)"

text \<open>
  The string that the engine returns for the fragment of \<^verbatim>\<open>getDateSQL\<close> on a
  timestamp: \<^verbatim>\<open>to_char(date_trunc(unit, t), POSTGRESQL_DATE_FORMATS[unit])\<close> and
  \<^verbatim>\<open>date_format(t, MYSQL_DATE_FORMATS[unit])\<close>.
\<close>

definition bucket_label :: "database \<Rightarrow> string \<Rightarrow> timestamp \<Rightarrow> string option" where
  "bucket_label db unit ts =
     (if db = POSTGRESQL then
        (case date_trunc unit ts of
           None \<Rightarrow> None
         | Some t \<Rightarrow> map_option (\<lambda>f. pg_to_char f t) (POSTGRESQL_DATE_FORMATS unit))
      else if db = MYSQL then map_option (\<lambda>f. mysql_date_format f ts) (MYSQL_DATE_FORMATS unit)
      else None)"

text \<open>The date of a timestamp, as both engines print it: year, month and day.\<close>

definition ymd :: "timestamp \<Rightarrow> string" where
  "ymd ts = zero_pad 4 (ts_year ts) @ ''-'' @ zero_pad 2 (ts_month ts) @ ''-''
     @ zero_pad 2 (ts_day ts)"

subsection \<open>Templates as text pieces and placeholders\<close>

text \<open>
  To state what the binder does to a template, a template is written as pieces of text
  with a placeholder after each, and a last piece. A placeholder is the text
  \<^verbatim>\<open>{{\<close>, white space, a name, an optional type after two colons, white space,
  \<^verbatim>\<open>}}\<close>.
\<close>

record placeholder =
  ph_lead :: string
  ph_name :: string
  ph_type :: "string option"
  ph_trail :: string

definition type_suffix :: "placeholder \<Rightarrow> string" where
  "type_suffix p = (case ph_type p of None \<Rightarrow> [] | Some t \<Rightarrow> ''::'' @ t)"

definition placeholder_text :: "placeholder \<Rightarrow> string" where
  "placeholder_text p =
     [CHR 0x7B, CHR 0x7B] @ ph_lead p @ ph_name p @ type_suffix p @ ph_trail p
       @ [CHR 0x7D, CHR 0x7D]"

definition well_formed :: "placeholder \<Rightarrow> bool" where
  "well_formed p \<longleftrightarrow>
     list_all is_space (ph_lead p) \<and> ph_name p \<noteq> [] \<and> list_all is_word (ph_name p)
     \<and> (case ph_type p of None \<Rightarrow> True | Some t \<Rightarrow> t \<noteq> [] \<and> list_all is_word t)
     \<and> list_all is_space (ph_trail p)"

text \<open>The second group of the match of a placeholder: the type with its two colons.\<close>

definition captured_type :: "placeholder \<Rightarrow> string option" where
  "captured_type p = map_option (\<lambda>t. ''::'' @ t) (ph_type p)"

text \<open>A piece of text in which the regular expression matches nowhere.\<close>

fun no_placeholder :: "string \<Rightarrow> bool" where
  "no_placeholder [] = True"
| "no_placeholder (c # cs) = (match_placeholder (c # cs) = None \<and> no_placeholder cs)"

fun template_text :: "(string \<times> placeholder) list \<Rightarrow> string \<Rightarrow> string" where
  "template_text [] last_piece = last_piece"
| "template_text ((piece, p) # pieces) last_piece =
     piece @ placeholder_text p @ template_text pieces last_piece"

definition template_ok :: "(string \<times> placeholder) list \<Rightarrow> string \<Rightarrow> bool" where
  "template_ok pieces last_piece \<longleftrightarrow>
     list_all (\<lambda>(piece, p). no_placeholder piece \<and> well_formed p) pieces
     \<and> no_placeholder last_piece"

text \<open>
  The statement that the claim describes: the pieces unchanged, and for the
  \<open>k\<close>-th placeholder (from 1) the marker \<^verbatim>\<open>?\<close> on MySQL and \<^verbatim>\<open>$k\<close> with the type
  suffix otherwise.
\<close>

definition marker :: "database \<Rightarrow> nat \<Rightarrow> placeholder \<Rightarrow> string" where
  "marker db k p = (if db = MYSQL then ''?'' else ''$'' @ string_of_nat k @ type_suffix p)"

fun bound_text :: "database \<Rightarrow> nat \<Rightarrow> (string \<times> placeholder) list \<Rightarrow> string \<Rightarrow> string" where
  "bound_text db n [] last_piece = last_piece"
| "bound_text db n ((piece, p) # pieces) last_piece =
     piece @ marker db (Suc n) p @ bound_text db (Suc n) pieces last_piece"

definition bound_values :: "(string \<rightharpoonup> 'v) \<Rightarrow> (string \<times> placeholder) list \<Rightarrow> 'v option list" where
  "bound_values data pieces = map (\<lambda>(piece, p). data (ph_name p)) pieces"

section \<open>Properties\<close>

subsection \<open>Pagination\<close>

lemma effective_size_fallback:
  "pageSize pp = None \<or> pageSize pp = Some 0 \<Longrightarrow> effective_size D pp = D"
  by (auto simp: effective_size_def)

lemma paging_args_take:
  "(criteria ++ paging_args D pp) ''take'' =
     (if 0 < effective_size D pp then Some (Number (effective_size D pp)) else criteria ''take'')"
  by (auto simp: paging_args_def Let_def map_add_def split: option.splits)

lemma paging_args_skip:
  "(criteria ++ paging_args D pp) ''skip'' =
     (if 0 < effective_size D pp
      then Some (Number (effective_size D pp * (effective_page pp - 1)))
      else criteria ''skip'')"
  by (auto simp: paging_args_def Let_def map_add_def split: option.splits)

subsection \<open>The regular expression\<close>

lemma brace_not_space [simp]: "\<not> is_space (CHR 0x7B)" "\<not> is_space (CHR 0x7D)" "\<not> is_space (CHR '':'')"
  by (simp_all add: is_space_def)

lemma brace_not_word [simp]: "\<not> is_word (CHR 0x7B)" "\<not> is_word (CHR 0x7D)" "\<not> is_word (CHR '':'')"
  by (simp_all add: is_word_def)

lemma space_not_word: "is_space c \<Longrightarrow> \<not> is_word c"
  by (auto simp: is_space_def is_word_def)

lemma word_not_space: "is_word c \<Longrightarrow> \<not> is_space c"
  using space_not_word by blast

lemma match_placeholder_first:
  "c \<noteq> CHR 0x7B \<Longrightarrow> match_placeholder (c # cs) = None"
  by (simp add: match_placeholder_def split: list.splits)

text \<open>The head of a string that starts with characters of a class, then one outside it.\<close>

lemma takeWhile_run:
  "list_all P xs \<Longrightarrow> (ys = [] \<or> \<not> P (hd ys)) \<Longrightarrow> takeWhile P (xs @ ys) = xs"
  by (induction xs) (auto simp: takeWhile_eq_Nil_iff)

lemma dropWhile_run:
  "list_all P xs \<Longrightarrow> (ys = [] \<or> \<not> P (hd ys)) \<Longrightarrow> dropWhile P (xs @ ys) = ys"
  by (induction xs) (auto simp: dropWhile_eq_self_iff)

lemma list_all_takeWhile: "list_all P (takeWhile P xs)"
  by (induction xs) auto

lemma type_hint_some:
  assumes "t \<noteq> []" "list_all is_word t" "ys = [] \<or> \<not> is_word (hd ys)"
  shows "type_hint (''::'' @ t @ ys) = (Some (''::'' @ t), ys)"
  using assms by (simp add: type_hint_def takeWhile_run dropWhile_run)

lemma type_hint_none:
  "s = [] \<or> hd s \<noteq> CHR '':'' \<Longrightarrow> type_hint s = (None, s)"
  by (auto simp: type_hint_def split: list.splits)

lemma type_hint_cases:
  assumes "type_hint s = (ty, r)"
  obtains "ty = None" "r = s"
  | t where "ty = Some (''::'' @ t)" "t \<noteq> []" "list_all is_word t" "s = ''::'' @ t @ r"
proof (cases ty)
  case None
  with assms have "r = s"
    by (auto simp: type_hint_def split: list.splits if_splits)
  with None that(1) show ?thesis by blast
next
  case (Some u)
  with assms obtain x where s: "s = CHR '':'' # CHR '':'' # x"
    and u: "u = ''::'' @ takeWhile is_word x" and ne: "takeWhile is_word x \<noteq> []"
    and r: "r = dropWhile is_word x"
    by (auto simp: type_hint_def split: list.splits if_splits)
  have "s = ''::'' @ takeWhile is_word x @ r"
    using s r by simp
  with Some u ne that(2) [of "takeWhile is_word x"] show ?thesis
    by (simp add: list_all_takeWhile)
qed

lemma match_placeholder_complete:
  assumes "well_formed p"
  shows "match_placeholder (placeholder_text p @ rest)
           = Some (ph_name p, captured_type p, rest)"
proof -
  define close where "close = CHR 0x7D # CHR 0x7D # rest"
  define after_type where "after_type = ph_trail p @ close"
  define after_name where "after_name = type_suffix p @ after_type"
  from assms have lead: "list_all is_space (ph_lead p)" and trail: "list_all is_space (ph_trail p)"
    and name: "ph_name p \<noteq> []" "list_all is_word (ph_name p)"
    by (simp_all add: well_formed_def)
  have shape: "placeholder_text p @ rest
      = CHR 0x7B # CHR 0x7B # ph_lead p @ ph_name p @ after_name"
    by (simp add: placeholder_text_def after_name_def after_type_def close_def)
  have hd_after_type: "after_type = [] \<or> \<not> is_word (hd after_type)"
    using trail by (cases "ph_trail p") (auto simp: after_type_def close_def space_not_word)
  have hd_after_type': "after_type = [] \<or> hd after_type \<noteq> CHR '':''"
    using trail by (cases "ph_trail p") (auto simp: after_type_def close_def)
  have hd_after_name: "after_name = [] \<or> \<not> is_word (hd after_name)"
    using hd_after_type by (cases "ph_type p") (auto simp: after_name_def type_suffix_def)
  have hint: "type_hint after_name = (captured_type p, after_type)"
  proof (cases "ph_type p")
    case None
    then show ?thesis
      using hd_after_type' by (simp add: after_name_def type_suffix_def captured_type_def type_hint_none)
  next
    case (Some t)
    with assms have "t \<noteq> []" "list_all is_word t"
      by (simp_all add: well_formed_def)
    then show ?thesis
      using type_hint_some [OF _ _ hd_after_type, of t] Some
      by (simp add: after_name_def type_suffix_def captured_type_def)
  qed
  have r1: "dropWhile is_space (ph_lead p @ ph_name p @ after_name) = ph_name p @ after_name"
    using lead name by (intro dropWhile_run) (auto simp: word_not_space neq_Nil_conv)
  have nm: "takeWhile is_word (ph_name p @ after_name) = ph_name p"
    using name hd_after_name by (intro takeWhile_run)
  have r2: "dropWhile is_word (ph_name p @ after_name) = after_name"
    using name hd_after_name by (intro dropWhile_run)
  have r4: "dropWhile is_space after_type = close"
    unfolding after_type_def using trail by (intro dropWhile_run) (auto simp: close_def)
  show ?thesis
    unfolding shape by (simp add: match_placeholder_def r1 nm r2 hint r4 name close_def)
qed

lemma match_placeholder_sound:
  assumes "match_placeholder s = Some (nm, ty, rest)"
  obtains p where "well_formed p" "s = placeholder_text p @ rest" "nm = ph_name p"
    "ty = captured_type p"
proof -
  from assms obtain r0 where s: "s = CHR 0x7B # CHR 0x7B # r0"
    by (auto simp: match_placeholder_def split: list.splits if_splits)
  define r1 where "r1 = dropWhile is_space r0"
  define r2 where "r2 = dropWhile is_word r1"
  obtain ty' r3 where th: "type_hint r2 = (ty', r3)"
    by (cases "type_hint r2") auto
  from assms s th have nm: "nm = takeWhile is_word r1" and ne: "nm \<noteq> []" and ty: "ty' = ty"
    and close: "dropWhile is_space r3 = CHR 0x7D # CHR 0x7D # rest"
    by (auto simp: match_placeholder_def Let_def r1_def r2_def split: list.splits if_splits)
  have r0: "r0 = takeWhile is_space r0 @ nm @ r2"
    by (simp add: nm r1_def r2_def)
  have r3: "r3 = takeWhile is_space r3 @ CHR 0x7D # CHR 0x7D # rest"
    using close takeWhile_dropWhile_id [of is_space r3] by simp
  from th show ?thesis
  proof (cases rule: type_hint_cases)
    case 1
    let ?p = "\<lparr>ph_lead = takeWhile is_space r0, ph_name = nm, ph_type = None,
      ph_trail = takeWhile is_space r3\<rparr>"
    have "well_formed ?p"
      using ne by (simp add: well_formed_def list_all_takeWhile nm)
    moreover have "s = placeholder_text ?p @ rest"
      using s r0 r3 1 by (simp add: placeholder_text_def type_suffix_def)
    ultimately show ?thesis
      using that [of ?p] 1 ty by (simp add: captured_type_def)
  next
    case (2 t)
    let ?p = "\<lparr>ph_lead = takeWhile is_space r0, ph_name = nm, ph_type = Some t,
      ph_trail = takeWhile is_space r3\<rparr>"
    have "well_formed ?p"
      using ne 2 by (simp add: well_formed_def list_all_takeWhile nm)
    moreover have "s = placeholder_text ?p @ rest"
      using s r0 r3 2 by (simp add: placeholder_text_def type_suffix_def)
    ultimately show ?thesis
      using that [of ?p] 2 ty by (simp add: captured_type_def)
  qed
qed

lemma match_placeholder_extend:
  assumes "match_placeholder t = Some (nm, ty, r)"
  shows "match_placeholder (t @ x) = Some (nm, ty, r @ x)"
proof -
  from assms obtain p where p: "well_formed p" "t = placeholder_text p @ r" "nm = ph_name p"
    "ty = captured_type p"
    by (rule match_placeholder_sound)
  then show ?thesis
    using match_placeholder_complete [of p "r @ x"] by simp
qed

text \<open>After its first two characters the text of a placeholder has no opening brace.\<close>

lemma placeholder_body:
  assumes "well_formed p"
  obtains body where "placeholder_text p = CHR 0x7B # CHR 0x7B # body" "body \<noteq> []"
    "CHR 0x7B \<notin> set body"
proof -
  let ?body = "ph_lead p @ ph_name p @ type_suffix p @ ph_trail p @ [CHR 0x7D, CHR 0x7D]"
  have a: "CHR 0x7B \<notin> set xs" if "list_all is_space xs" for xs
    using that by (auto simp: list_all_iff)
  have b: "CHR 0x7B \<notin> set xs" if "list_all is_word xs" for xs
    using that by (auto simp: list_all_iff)
  have "CHR 0x7B \<notin> set (type_suffix p)"
    using assms b by (cases "ph_type p") (auto simp: type_suffix_def well_formed_def)
  moreover have "CHR 0x7B \<notin> set (ph_lead p)" "CHR 0x7B \<notin> set (ph_name p)"
    "CHR 0x7B \<notin> set (ph_trail p)"
    using assms a b by (simp_all add: well_formed_def)
  ultimately have "CHR 0x7B \<notin> set ?body"
    by simp
  moreover have "placeholder_text p = CHR 0x7B # CHR 0x7B # ?body"
    by (simp add: placeholder_text_def)
  ultimately show ?thesis
    using that [of ?body] by blast
qed

text \<open>
  A piece in which nothing matches stays so when the text goes on with an opening
  pair of braces (or ends): a match cannot run over an opening brace.
\<close>

lemma match_placeholder_before_braces:
  assumes none: "match_placeholder t = None" and ne: "t \<noteq> []"
    and nxt: "others = [] \<or> (\<exists>m. others = CHR 0x7B # CHR 0x7B # m)"
  shows "match_placeholder (t @ others) = None"
proof (cases "others = []")
  case True
  with none show ?thesis by simp
next
  case False
  with nxt obtain m where others: "others = CHR 0x7B # CHR 0x7B # m"
    by blast
  show ?thesis
  proof (rule ccontr)
    assume "match_placeholder (t @ others) \<noteq> None"
    then obtain nm ty r where some: "match_placeholder (t @ others) = Some (nm, ty, r)"
      by (cases "match_placeholder (t @ others)") auto
    then obtain p where p: "well_formed p" "t @ others = placeholder_text p @ r"
      by (rule match_placeholder_sound)
    from p(1) obtain body where body: "placeholder_text p = CHR 0x7B # CHR 0x7B # body"
      "body \<noteq> []" "CHR 0x7B \<notin> set body"
      by (rule placeholder_body)
    from ne obtain a t1 where t: "t = a # t1"
      by (cases t) auto
    show False
    proof (cases t1)
      case Nil
      with t p(2) body others have "CHR 0x7B # m = body @ r"
        by simp
      with body(2,3) show False
        by (cases body) auto
    next
      case (Cons b t2)
      with t p(2) body others have eq: "t2 @ CHR 0x7B # CHR 0x7B # m = body @ r"
        and ab: "a = CHR 0x7B" "b = CHR 0x7B"
        by simp_all
      from eq obtain us where
        "(t2 = body @ us \<and> us @ CHR 0x7B # CHR 0x7B # m = r)
          \<or> (t2 @ us = body \<and> CHR 0x7B # CHR 0x7B # m = us @ r)"
        unfolding append_eq_append_conv2 by blast
      then obtain vs where "t2 = body @ vs"
      proof
        assume "t2 = body @ us \<and> us @ CHR 0x7B # CHR 0x7B # m = r"
        then show ?thesis using that by blast
      next
        assume *: "t2 @ us = body \<and> CHR 0x7B # CHR 0x7B # m = us @ r"
        have "us = []"
        proof (cases us)
          case Nil
          then show ?thesis .
        next
          case (Cons u us')
          with * have "u = CHR 0x7B" "u \<in> set body"
            by auto
          with body(3) show ?thesis by simp
        qed
        with * that [of "[]"] show ?thesis by simp
      qed
      with t Cons ab body(1) have "t = placeholder_text p @ vs"
        by simp
      with match_placeholder_complete [OF p(1), of vs] none show False
        by simp
    qed
  qed
qed

lemma scan_piece:
  assumes "no_placeholder piece"
    and "others = [] \<or> (\<exists>m. others = CHR 0x7B # CHR 0x7B # m)"
  shows "replaceAll_placeholders f st (piece @ others)
           = (case replaceAll_placeholders f st others of (out, st') \<Rightarrow> (piece @ out, st'))"
  using assms(1)
proof (induction piece)
  case Nil
  then show ?case by (simp split: prod.splits)
next
  case (Cons c cs)
  then have "match_placeholder (c # cs) = None" and cs: "no_placeholder cs"
    by simp_all
  then have "match_placeholder ((c # cs) @ others) = None"
    using assms(2) by (intro match_placeholder_before_braces) simp_all
  then show ?case
    using Cons.IH [OF cs] by (simp add: replaceAll_placeholders.simps(2) split: prod.splits)
qed

lemma scan_placeholder:
  assumes "well_formed p"
  shows "replaceAll_placeholders f st (placeholder_text p @ rest)
           = (case f (ph_name p) (captured_type p) st of
                (rep, st1) \<Rightarrow>
                  (case replaceAll_placeholders f st1 rest of
                     (out, st2) \<Rightarrow> (rep @ out, st2)))"
proof -
  obtain c cs where shape: "placeholder_text p @ rest = c # cs"
    by (simp add: placeholder_text_def)
  have "match_placeholder (c # cs) = Some (ph_name p, captured_type p, rest)"
    using match_placeholder_complete [OF assms, of rest] shape by simp
  then show ?thesis
    unfolding shape by (simp add: replaceAll_placeholders.simps(2) split: prod.splits)
qed

lemma bind_template:
  assumes "template_ok pieces last_piece"
  shows "replaceAll_placeholders (bind_callback db data) params (template_text pieces last_piece)
           = (bound_text db (length params) pieces last_piece, params @ bound_values data pieces)"
  using assms
proof (induction pieces arbitrary: params)
  case Nil
  then have "no_placeholder last_piece"
    by (simp add: template_ok_def)
  from scan_piece [OF this, of "[]"] show ?case
    by (simp add: bound_values_def)
next
  case (Cons a pieces)
  obtain piece p where a: "a = (piece, p)"
    by (cases a) auto
  from Cons.prems a have piece: "no_placeholder piece" and p: "well_formed p"
    and ok: "template_ok pieces last_piece"
    by (simp_all add: template_ok_def)
  let ?rest = "template_text pieces last_piece"
  have "\<exists>m. placeholder_text p @ ?rest = CHR 0x7B # CHR 0x7B # m"
    by (simp add: placeholder_text_def)
  then have 1: "replaceAll_placeholders (bind_callback db data) params
        (piece @ placeholder_text p @ ?rest)
      = (case replaceAll_placeholders (bind_callback db data) params (placeholder_text p @ ?rest)
         of (out, st') \<Rightarrow> (piece @ out, st'))"
    by (intro scan_piece [OF piece]) simp
  have 2: "bind_callback db data (ph_name p) (captured_type p) params
      = (marker db (Suc (length params)) p, params @ [data (ph_name p)])"
    by (cases "ph_type p")
      (simp_all add: bind_callback_def marker_def captured_type_def type_suffix_def)
  show ?case
    unfolding a template_text.simps 1 scan_placeholder [OF p] 2
    by (simp add: Cons.IH [OF ok] bound_values_def)
qed

lemma template_exists:
  "\<exists>pieces last_piece. s = template_text pieces last_piece \<and> template_ok pieces last_piece"
proof (induction "length s" arbitrary: s rule: less_induct)
  case less
  show ?case
  proof (cases s)
    case Nil
    then have "s = template_text [] []" "template_ok [] []"
      by (simp_all add: template_ok_def)
    then show ?thesis by blast
  next
    case (Cons c cs)
    show ?thesis
    proof (cases "match_placeholder s")
      case None
      from less [of cs] Cons obtain pieces last_piece where
        cs: "cs = template_text pieces last_piece" and ok: "template_ok pieces last_piece"
        by auto
      show ?thesis
      proof (cases pieces)
        case Nil
        with cs ok None Cons have "s = template_text [] (c # cs)" "template_ok [] (c # cs)"
          by (simp_all add: template_ok_def)
        then show ?thesis by blast
      next
        case (Cons a pieces')
        obtain piece p where a: "a = (piece, p)"
          by (cases a) auto
        have "match_placeholder (c # piece) = None"
        proof (rule ccontr)
          assume "match_placeholder (c # piece) \<noteq> None"
          then obtain nm ty r where "match_placeholder (c # piece) = Some (nm, ty, r)"
            by (cases "match_placeholder (c # piece)") auto
          from match_placeholder_extend [OF this, of "placeholder_text p @ template_text pieces' last_piece"]
          show False
            using None \<open>s = c # cs\<close> cs Cons a by simp
        qed
        with ok Cons a have "template_ok ((c # piece, p) # pieces') last_piece"
          by (simp add: template_ok_def)
        moreover have "s = template_text ((c # piece, p) # pieces') last_piece"
          using \<open>s = c # cs\<close> cs Cons a by simp
        ultimately show ?thesis by blast
      qed
    next
      case (Some m)
      obtain nm ty r where m: "m = (nm, ty, r)"
        by (cases m) auto
      with Some have some: "match_placeholder s = Some (nm, ty, r)"
        by simp
      then obtain p where p: "well_formed p" "s = placeholder_text p @ r"
        by (rule match_placeholder_sound)
      from match_placeholder_shorter [OF some] less [of r] obtain pieces last_piece where
        r: "r = template_text pieces last_piece" and ok: "template_ok pieces last_piece"
        by auto
      have "s = template_text (([], p) # pieces) last_piece"
        using p(2) r by simp
      moreover have "template_ok (([], p) # pieces) last_piece"
        using ok p(1) by (simp add: template_ok_def)
      ultimately show ?thesis by blast
    qed
  qed
qed

subsection \<open>Binding a template\<close>

lemma rawQuery_template:
  assumes "db = MYSQL \<or> db = POSTGRESQL" and "template_ok pieces last_piece"
  shows "rawQuery db exec (template_text pieces last_piece) data
           = exec (bound_text db 0 pieces last_piece) (bound_values data pieces)"
  using assms(1) bind_template [OF assms(2), of db data "[]"]
  by (auto simp: rawQuery_def)

text \<open>
  C3. Every template is a sequence of pieces of text in which the pattern matches
  nowhere, each followed by a placeholder \<^verbatim>\<open>{{name}}\<close> or \<^verbatim>\<open>{{name::type}}\<close> with
  optional white space inside the braces, and a last piece. However the template is
  written so, \<^verbatim>\<open>rawQuery\<close> hands to the collaborator the pieces unchanged with the
  \<open>k\<close>-th placeholder replaced by \<^verbatim>\<open>?\<close> on MySQL and by \<^verbatim>\<open>$k\<close> and its type
  suffix on PostgreSQL, and the values \<^verbatim>\<open>data[name]\<close> of the placeholders in the order
  of their occurrence, one for each occurrence.
\<close>

theorem rawQuery_binds_placeholders:
  assumes "db = MYSQL \<or> db = POSTGRESQL"
  shows "(\<exists>pieces last_piece. sql = template_text pieces last_piece
            \<and> template_ok pieces last_piece)
     \<and> (\<forall>pieces last_piece.
           sql = template_text pieces last_piece \<and> template_ok pieces last_piece
           \<longrightarrow> rawQuery db exec sql data
                 = exec (bound_text db 0 pieces last_piece) (bound_values data pieces))"
  using assms template_exists [of sql] rawQuery_template [of db _ _ exec data]
  by blast

lemma string_of_nat_1: "string_of_nat (Suc 0) = ''1''"
  by (simp add: string_of_nat.simps digit_char_def)

lemma string_of_nat_2: "string_of_nat (Suc (Suc 0)) = ''2''"
  by (simp add: string_of_nat.simps digit_char_def)

lemma string_of_nat_3: "string_of_nat (Suc (Suc (Suc 0))) = ''3''"
  by (simp add: string_of_nat.simps digit_char_def)

theorem rawQuery_binds_placeholders_witness:
  "(MYSQL = MYSQL \<or> MYSQL = POSTGRESQL)
   \<and> (POSTGRESQL = MYSQL \<or> POSTGRESQL = POSTGRESQL)
   \<and> rawQuery MYSQL (\<lambda>q ps. Inr (q, ps))
        ''select {{ id }} from t where id = {{id}} and name = {{name::text}}''
        [''id'' \<mapsto> SNum 5, ''name'' \<mapsto> SStr ''a'']
      = Inr (''select ? from t where id = ? and name = ?'',
             [Some (SNum 5), Some (SNum 5), Some (SStr ''a'')])
   \<and> rawQuery POSTGRESQL (\<lambda>q ps. Inr (q, ps))
        ''select {{ id }} from t where id = {{id}} and name = {{name::text}}''
        [''id'' \<mapsto> SNum 5, ''name'' \<mapsto> SStr ''a'']
      = Inr (''select $1 from t where id = $2 and name = $3::text'',
             [Some (SNum 5), Some (SNum 5), Some (SStr ''a'')])"
proof -
  let ?sql = "''select {{ id }} from t where id = {{id}} and name = {{name::text}}''"
  let ?pieces = "[(''select '', \<lparr>ph_lead = '' '', ph_name = ''id'', ph_type = None, ph_trail = '' ''\<rparr>),
      ('' from t where id = '', \<lparr>ph_lead = [], ph_name = ''id'', ph_type = None, ph_trail = []\<rparr>),
      ('' and name = '', \<lparr>ph_lead = [], ph_name = ''name'', ph_type = Some ''text'', ph_trail = []\<rparr>)]"
  let ?data = "[''id'' \<mapsto> SNum 5, ''name'' \<mapsto> SStr ''a'']"
  let ?exec = "\<lambda>q ps. Inr (q, ps) :: error + string \<times> scalar option list"
  have my: "MYSQL = MYSQL \<or> MYSQL = POSTGRESQL" and pg: "POSTGRESQL = MYSQL \<or> POSTGRESQL = POSTGRESQL"
    by simp_all
  have shape: "?sql = template_text ?pieces []"
    by (simp add: placeholder_text_def type_suffix_def)
  have ok: "template_ok ?pieces []"
    by (simp add: template_ok_def well_formed_def is_word_def is_space_def
        match_placeholder_first)
  have 1: "rawQuery MYSQL ?exec ?sql ?data
      = ?exec (bound_text MYSQL 0 ?pieces []) (bound_values ?data ?pieces)"
    using rawQuery_binds_placeholders [OF my, of ?sql ?exec ?data] shape ok by blast
  have 2: "rawQuery POSTGRESQL ?exec ?sql ?data
      = ?exec (bound_text POSTGRESQL 0 ?pieces []) (bound_values ?data ?pieces)"
    using rawQuery_binds_placeholders [OF pg, of ?sql ?exec ?data] shape ok by blast
  show ?thesis
    unfolding 1 2
    by (simp add: marker_def bound_values_def type_suffix_def string_of_nat_1 string_of_nat_2
        string_of_nat_3)
qed

text \<open>
  C6, as amended. The parameter object is an ordinary object with the own entries
  \<open>own\<close>. A placeholder whose name is not among them is bound to what the read
  \<^verbatim>\<open>data[name]\<close> gives: \<^verbatim>\<open>undefined\<close> when the name is not a member of
  \<^verbatim>\<open>Object.prototype\<close> either, and the inherited member when it is. In both cases
  the statement goes to the collaborator as for any other template: the binder raises
  nothing of its own.
\<close>

theorem rawQuery_missing_name_binds_undefined:
  assumes "db = MYSQL \<or> db = POSTGRESQL"
    and "template_ok pieces last_piece"
    and "i < length pieces"
    and "own (ph_name (snd (pieces ! i))) = None"
  shows "rawQuery db exec (template_text pieces last_piece) (object_read own)
           = exec (bound_text db 0 pieces last_piece) (bound_values (object_read own) pieces)
     \<and> length (bound_values (object_read own) pieces) = length pieces
     \<and> (ph_name (snd (pieces ! i)) \<notin> set Object_prototype_names
          \<longrightarrow> bound_values (object_read own) pieces ! i = None)
     \<and> (ph_name (snd (pieces ! i)) \<in> set Object_prototype_names
          \<longrightarrow> bound_values (object_read own) pieces ! i
                = Some (Inherited (ph_name (snd (pieces ! i)))))"
  using assms rawQuery_template [of db pieces last_piece exec "object_read own"]
  by (simp add: bound_values_def case_prod_unfold object_read_def)

theorem rawQuery_missing_name_binds_undefined_witness:
  "(POSTGRESQL = MYSQL \<or> POSTGRESQL = POSTGRESQL)
   \<and> template_ok
        [(''select * from t where id = '',
           \<lparr>ph_lead = [], ph_name = ''id'', ph_type = None, ph_trail = []\<rparr>),
         ('' and owner = '',
           \<lparr>ph_lead = [], ph_name = ''owner'', ph_type = None, ph_trail = []\<rparr>)] []
   \<and> (1::nat) < length
        [(''select * from t where id = '',
           \<lparr>ph_lead = [], ph_name = ''id'', ph_type = None, ph_trail = []\<rparr>),
         ('' and owner = '',
           \<lparr>ph_lead = [], ph_name = ''owner'', ph_type = None, ph_trail = []\<rparr>)]
   \<and> [''id'' \<mapsto> SNum 5] ''owner'' = None
   \<and> ''owner'' \<notin> set Object_prototype_names
   \<and> rawQuery POSTGRESQL (\<lambda>q ps. Inr (q, ps))
        ''select * from t where id = {{id}} and owner = {{owner}}''
        (object_read [''id'' \<mapsto> SNum 5])
      = Inr (''select * from t where id = $1 and owner = $2'', [Some (Own (SNum 5)), None])"
proof -
  let ?pieces = "[(''select * from t where id = '',
           \<lparr>ph_lead = [], ph_name = ''id'', ph_type = None, ph_trail = []\<rparr>),
         ('' and owner = '',
           \<lparr>ph_lead = [], ph_name = ''owner'', ph_type = None, ph_trail = []\<rparr>)]"
  let ?exec = "\<lambda>q ps. Inr (q, ps) :: error + string \<times> scalar js_value option list"
  have pg: "POSTGRESQL = MYSQL \<or> POSTGRESQL = POSTGRESQL"
    by simp
  have ok: "template_ok ?pieces []"
    by (simp add: template_ok_def well_formed_def is_word_def is_space_def
        match_placeholder_first)
  have i: "(1::nat) < length ?pieces"
    by simp
  have missing: "[''id'' \<mapsto> SNum 5] (ph_name (snd (?pieces ! 1))) = None"
    by simp
  have plain: "''owner'' \<notin> set Object_prototype_names"
    by (simp add: Object_prototype_names_def)
  show ?thesis
    using rawQuery_missing_name_binds_undefined
      [where db = POSTGRESQL and pieces = ?pieces and last_piece = "[]" and i = 1
        and own = "[''id'' \<mapsto> SNum 5]" and exec = ?exec, OF pg ok i missing] ok plain
    by (simp add: placeholder_text_def marker_def bound_values_def type_suffix_def
        string_of_nat_1 string_of_nat_2 object_read_def)
qed

text \<open>
  C6 as stated fails: the object \<^verbatim>\<open>{id: 5}\<close> has no entry \<^verbatim>\<open>constructor\<close>, and the
  placeholder of that name is bound to the inherited function, not to \<^verbatim>\<open>undefined\<close>.
\<close>

theorem rawQuery_inherited_name_counterexample:
  "[''id'' \<mapsto> SNum 5] ''constructor'' = None
   \<and> rawQuery POSTGRESQL (\<lambda>q ps. Inr (q, ps))
        ''select * from t where id = {{id}} and c = {{constructor}}''
        (object_read [''id'' \<mapsto> SNum 5])
      = Inr (''select * from t where id = $1 and c = $2'',
             [Some (Own (SNum 5)), Some (Inherited ''constructor'')])"
proof -
  let ?pieces = "[(''select * from t where id = '',
           \<lparr>ph_lead = [], ph_name = ''id'', ph_type = None, ph_trail = []\<rparr>),
         ('' and c = '',
           \<lparr>ph_lead = [], ph_name = ''constructor'', ph_type = None, ph_trail = []\<rparr>)]"
  let ?exec = "\<lambda>q ps. Inr (q, ps) :: error + string \<times> scalar js_value option list"
  have pg: "POSTGRESQL = MYSQL \<or> POSTGRESQL = POSTGRESQL"
    by simp
  have ok: "template_ok ?pieces []"
    by (simp add: template_ok_def well_formed_def is_word_def is_space_def
        match_placeholder_first)
  show ?thesis
    using rawQuery_template
      [where db = POSTGRESQL and pieces = ?pieces and last_piece = "[]"
        and data = "object_read [''id'' \<mapsto> SNum 5]" and exec = ?exec, OF pg ok]
    by (simp add: placeholder_text_def marker_def bound_values_def type_suffix_def
        string_of_nat_1 string_of_nat_2 object_read_def Object_prototype_names_def)
qed

subsection \<open>The paged envelope\<close>

lemma pagedQuery_envelope:
  assumes "pagedQuery D findMany count_rows model criteria pp = Inr env"
  shows "env_page env = effective_page pp \<and> env_pageSize env = effective_size D pp
    \<and> env_orderBy env = orderBy pp"
  using assms by (auto simp: pagedQuery_def split: sum.splits)

lemma pagedRawQuery_envelope:
  assumes "pagedRawQuery D db exec query queryParams pp = Inr env"
  shows "env_page env = effective_page pp \<and> env_pageSize env = effective_size D pp
    \<and> env_orderBy env = orderBy pp"
  using assms by (auto simp: pagedRawQuery_def split: sum.splits list.splits)

text \<open>
  C7, as amended. The envelope of either entry point carries the page, or 1 when the
  page is absent, and the page size, or \<^verbatim>\<open>DEFAULT_PAGE_SIZE\<close> when the page size is
  absent or 0; \<^verbatim>\<open>orderBy\<close> is returned as given.
\<close>

theorem envelope_page_and_size:
  "(pagedQuery D findMany count_rows model criteria pp = Inr env \<longrightarrow>
      env_page env = (case page pp of None \<Rightarrow> 1 | Some p \<Rightarrow> p)
      \<and> env_pageSize env = (case pageSize pp of None \<Rightarrow> D | Some n \<Rightarrow> if n = 0 then D else n)
      \<and> env_orderBy env = orderBy pp)
   \<and> (pagedRawQuery D db exec query queryParams pp = Inr env' \<longrightarrow>
      env_page env' = (case page pp of None \<Rightarrow> 1 | Some p \<Rightarrow> p)
      \<and> env_pageSize env' = (case pageSize pp of None \<Rightarrow> D | Some n \<Rightarrow> if n = 0 then D else n)
      \<and> env_orderBy env' = orderBy pp)"
  using pagedQuery_envelope [of D findMany count_rows model criteria pp env]
    pagedRawQuery_envelope [of D db exec query queryParams pp env']
  by (simp add: effective_page_def effective_size_def)

lemma rawQuery_plain:
  assumes "db = MYSQL \<or> db = POSTGRESQL" and "CHR 0x7B \<notin> set sql"
  shows "rawQuery db exec sql data = exec sql []"
proof -
  have "no_placeholder s" if "CHR 0x7B \<notin> set s" for s
    using that by (induction s) (auto simp: match_placeholder_first)
  with assms(2) have "template_ok [] sql"
    by (simp add: template_ok_def)
  from rawQuery_template [OF assms(1) this, of exec data] show ?thesis
    by (simp add: bound_values_def)
qed

theorem envelope_page_and_size_witness:
  "pagedQuery 10 (\<lambda>m a. Inr [1, 2 :: nat]) (\<lambda>m w. Inr (2 :: nat)) ''user''
      (Map.empty :: string \<rightharpoonup> unit arg)
      \<lparr>page = None, pageSize = None, orderBy = Some ''name'', sortDescending = None\<rparr>
     = Inr \<lparr>env_data = [1, 2], env_count = 2, env_page = 1, env_pageSize = 10,
            env_orderBy = Some ''name''\<rparr>
   \<and> (\<exists>env. pagedRawQuery 10 POSTGRESQL (\<lambda>q ps. Inr [[''num'' \<mapsto> (7 :: nat)]])
          ''select 1 '' Map.empty
          \<lparr>page = None, pageSize = None, orderBy = Some ''name'', sortDescending = None\<rparr>
          = Inr env
        \<and> env_page env = 1 \<and> env_pageSize env = 10 \<and> env_orderBy env = Some ''name'')"
proof -
  let ?pp = "\<lparr>page = None, pageSize = None, orderBy = Some ''name'', sortDescending = None\<rparr>"
  let ?exec = "\<lambda>q ps. Inr [[''num'' \<mapsto> (7 :: nat)]] :: error + (string \<rightharpoonup> nat) list"
  let ?env = "\<lparr>env_data = [1, 2 :: nat], env_count = 2 :: nat, env_page = 1, env_pageSize = 10,
            env_orderBy = Some ''name''\<rparr>"
  have a: "pagedQuery 10 (\<lambda>m a. Inr [1, 2 :: nat]) (\<lambda>m w. Inr (2 :: nat)) ''user''
      (Map.empty :: string \<rightharpoonup> unit arg) ?pp = Inr ?env"
    by (simp add: pagedQuery_def effective_page_def effective_size_def)
  have pg: "POSTGRESQL = MYSQL \<or> POSTGRESQL = POSTGRESQL"
    by simp
  have num: "string_of_int 10 = ''10''" "string_of_int 0 = ''0''"
    by (simp_all add: string_of_int_def string_of_nat.simps digit_char_def)
  have "\<exists>env. pagedRawQuery 10 POSTGRESQL ?exec ''select 1 '' Map.empty ?pp = Inr env"
    by (simp add: pagedRawQuery_def rawQuery_plain [OF pg] count_query_def statements_def
        effective_size_def effective_page_def truthy_def direction_def num)
  then obtain env where env: "pagedRawQuery 10 POSTGRESQL ?exec ''select 1 '' Map.empty ?pp = Inr env"
    by blast
  from envelope_page_and_size [of 10 "\<lambda>m a. Inr [1, 2 :: nat]" "\<lambda>m w. Inr (2 :: nat)" "''user''"
      "Map.empty :: string \<rightharpoonup> unit arg" ?pp ?env POSTGRESQL ?exec "''select 1 ''" Map.empty env] a env
  show ?thesis
    by simp
qed

text \<open>
  C7 as stated fails: with the default 10 and the page size 0 given, the envelope
  carries the page size 10, and the absent page comes back as 1.
\<close>

theorem envelope_echo_counterexample:
  "pageSize \<lparr>page = None, pageSize = Some 0, orderBy = None, sortDescending = None\<rparr> = Some 0
   \<and> pagedQuery 10 (\<lambda>m a. Inr [1, 2 :: nat]) (\<lambda>m w. Inr (2 :: nat)) ''user''
      (Map.empty :: string \<rightharpoonup> unit arg)
      \<lparr>page = None, pageSize = Some 0, orderBy = None, sortDescending = None\<rparr>
     = Inr \<lparr>env_data = [1, 2], env_count = 2, env_page = 1, env_pageSize = 10,
            env_orderBy = None\<rparr>"
  by (simp add: pagedQuery_def effective_page_def effective_size_def)

subsection \<open>Limit and offset\<close>

lemma paging_args_other:
  "k \<notin> set [''take'', ''skip'', ''orderBy''] \<Longrightarrow> (criteria ++ paging_args D pp) k = criteria k"
  by (auto simp: paging_args_def Let_def map_add_def split: option.splits)

lemma statements_clauses:
  "statements D pp =
     (case orderBy pp of
        None \<Rightarrow> []
      | Some ob \<Rightarrow>
          if ob = [] then []
          else ''order by '' @ ob @ (if sortDescending pp = Some True then '' desc'' else '' asc''))
     @ (if (case orderBy pp of None \<Rightarrow> False | Some ob \<Rightarrow> ob \<noteq> []) \<and> 0 < effective_size D pp
        then [CHR 0x0A] else [])
     @ (if 0 < effective_size D pp
        then ''limit '' @ string_of_int (effective_size D pp) @ '' offset ''
          @ string_of_int (effective_size D pp * (effective_page pp - 1))
        else [])"
  by (auto simp: statements_def Let_def truthy_def direction_def split: option.splits)

text \<open>
  C1, as amended. A page size that is 0 or absent is replaced by
  \<^verbatim>\<open>DEFAULT_PAGE_SIZE\<close>. Whatever the collaborators are, \<^verbatim>\<open>pagedQuery\<close> calls
  \<^verbatim>\<open>findMany\<close> with an argument object that has, for a positive default,
  \<^verbatim>\<open>take\<close> = default and \<^verbatim>\<open>skip\<close> = default * (page - 1), and that has the caller's
  \<^verbatim>\<open>take\<close> and \<^verbatim>\<open>skip\<close> otherwise; \<^verbatim>\<open>pagedRawQuery\<close> runs the query followed by
  the order clause and, for a positive default, the clause
  \<^verbatim>\<open>limit default offset default * (page - 1)\<close>. The count is what the collaborator
  returns for \<^verbatim>\<open>criteria.where\<close>, and the field \<^verbatim>\<open>num\<close> of the first row of the
  count statement, which wraps the query without that suffix. The numbers are safe
  integers.
\<close>

theorem paged_zero_or_absent_size_uses_default:
  assumes "pageSize pp = None \<or> pageSize pp = Some 0"
    and "safe_integer D"
    and "safe_integer (case page pp of None \<Rightarrow> 1 | Some p \<Rightarrow> p)"
    and "safe_integer (D * ((case page pp of None \<Rightarrow> 1 | Some p \<Rightarrow> p) - 1))"
  shows "\<exists>args order_clause limit_clause.
      args ''take'' = (if 0 < D then Some (Number D) else criteria ''take'')
    \<and> args ''skip''
        = (if 0 < D
           then Some (Number (D * ((case page pp of None \<Rightarrow> 1 | Some p \<Rightarrow> p) - 1)))
           else criteria ''skip'')
    \<and> (\<forall>k. k \<notin> set [''take'', ''skip'', ''orderBy''] \<longrightarrow> args k = criteria k)
    \<and> (\<forall>findMany count_rows.
          pagedQuery D findMany count_rows model criteria pp
            = (case findMany model args of
                 Inl e \<Rightarrow> Inl e
               | Inr rows \<Rightarrow>
                   (case count_rows model (criteria ''where'') of
                      Inl e \<Rightarrow> Inl e
                    | Inr n \<Rightarrow>
                        Inr \<lparr>env_data = rows, env_count = n,
                             env_page = (case page pp of None \<Rightarrow> 1 | Some p \<Rightarrow> p),
                             env_pageSize = D, env_orderBy = orderBy pp\<rparr>)))
    \<and> order_clause
        = (case orderBy pp of
             None \<Rightarrow> []
           | Some ob \<Rightarrow>
               if ob = [] then []
               else ''order by '' @ ob
                 @ (if sortDescending pp = Some True then '' desc'' else '' asc''))
    \<and> limit_clause
        = (if 0 < D
           then (if order_clause = [] then [] else [CHR 0x0A])
             @ ''limit '' @ string_of_int D @ '' offset ''
             @ string_of_int (D * ((case page pp of None \<Rightarrow> 1 | Some p \<Rightarrow> p) - 1))
           else [])
    \<and> (\<forall>exec.
          pagedRawQuery D db exec query queryParams pp
            = (case rawQuery db exec (''select count(*) as num from ('' @ query @ '') t'')
                      queryParams of
                 Inl e \<Rightarrow> Inl e
               | Inr res \<Rightarrow>
                   (case res of
                      [] \<Rightarrow> Inl TypeError
                    | row # others \<Rightarrow>
                        (case rawQuery db exec (query @ order_clause @ limit_clause)
                                queryParams of
                           Inl e \<Rightarrow> Inl e
                         | Inr rows \<Rightarrow>
                             Inr \<lparr>env_data = rows, env_count = row ''num'',
                                  env_page = (case page pp of None \<Rightarrow> 1 | Some p \<Rightarrow> p),
                                  env_pageSize = D, env_orderBy = orderBy pp\<rparr>))))
    \<and> ((db = MYSQL \<or> db = POSTGRESQL) \<and> CHR 0x7B \<notin> set query
          \<and> CHR 0x7B \<notin> set order_clause \<longrightarrow>
        (\<forall>exec.
          pagedRawQuery D db exec query queryParams pp
            = (case exec (''select count(*) as num from ('' @ query @ '') t'') [] of
                 Inl e \<Rightarrow> Inl e
               | Inr res \<Rightarrow>
                   (case res of
                      [] \<Rightarrow> Inl TypeError
                    | row # others \<Rightarrow>
                        (case exec (query @ order_clause @ limit_clause) [] of
                           Inl e \<Rightarrow> Inl e
                         | Inr rows \<Rightarrow>
                             Inr \<lparr>env_data = rows, env_count = row ''num'',
                                  env_page = (case page pp of None \<Rightarrow> 1 | Some p \<Rightarrow> p),
                                  env_pageSize = D, env_orderBy = orderBy pp\<rparr>)))))"
proof -
  let ?page = "case page pp of None \<Rightarrow> 1 | Some p \<Rightarrow> p"
  define order_clause where "order_clause =
    (case orderBy pp of
       None \<Rightarrow> []
     | Some ob \<Rightarrow>
         if ob = [] then []
         else ''order by '' @ ob @ (if sortDescending pp = Some True then '' desc'' else '' asc''))"
  define limit_clause where "limit_clause =
    (if 0 < D
     then (if order_clause = [] then [] else [CHR 0x0A])
       @ ''limit '' @ string_of_int D @ '' offset '' @ string_of_int (D * (?page - 1))
     else [])"
  have size: "effective_size D pp = D"
    using assms(1) by (rule effective_size_fallback)
  have page: "effective_page pp = ?page"
    by (simp add: effective_page_def)
  have suffix: "statements D pp = order_clause @ limit_clause"
    unfolding statements_clauses size page order_clause_def limit_clause_def
    by (auto split: option.splits)
  have t: "(criteria ++ paging_args D pp) ''take''
      = (if 0 < D then Some (Number D) else criteria ''take'')"
    by (simp add: paging_args_take size)
  have s: "(criteria ++ paging_args D pp) ''skip''
      = (if 0 < D then Some (Number (D * (?page - 1))) else criteria ''skip'')"
    by (simp add: paging_args_skip size page)
  have k: "\<forall>k. k \<notin> set [''take'', ''skip'', ''orderBy'']
      \<longrightarrow> (criteria ++ paging_args D pp) k = criteria k"
    using paging_args_other [of _ criteria D pp] by blast
  have q: "pagedQuery D findMany count_rows model criteria pp
      = (case findMany model (criteria ++ paging_args D pp) of
           Inl e \<Rightarrow> Inl e
         | Inr rows \<Rightarrow>
             (case count_rows model (criteria ''where'') of
                Inl e \<Rightarrow> Inl e
              | Inr n \<Rightarrow>
                  Inr \<lparr>env_data = rows, env_count = n, env_page = ?page,
                       env_pageSize = D, env_orderBy = orderBy pp\<rparr>))"
    for findMany count_rows
    unfolding pagedQuery_def size page by (rule refl)
  have r: "pagedRawQuery D db exec query queryParams pp
      = (case rawQuery db exec (''select count(*) as num from ('' @ query @ '') t'')
                queryParams of
           Inl e \<Rightarrow> Inl e
         | Inr res \<Rightarrow>
             (case res of
                [] \<Rightarrow> Inl TypeError
              | row # others \<Rightarrow>
                  (case rawQuery db exec (query @ order_clause @ limit_clause) queryParams of
                     Inl e \<Rightarrow> Inl e
                   | Inr rows \<Rightarrow>
                       Inr \<lparr>env_data = rows, env_count = row ''num'', env_page = ?page,
                            env_pageSize = D, env_orderBy = orderBy pp\<rparr>)))"
    for exec
    unfolding pagedRawQuery_def count_query_def suffix size page by simp
  have d: "pagedRawQuery D db exec query queryParams pp
      = (case exec (''select count(*) as num from ('' @ query @ '') t'') [] of
           Inl e \<Rightarrow> Inl e
         | Inr res \<Rightarrow>
             (case res of
                [] \<Rightarrow> Inl TypeError
              | row # others \<Rightarrow>
                  (case exec (query @ order_clause @ limit_clause) [] of
                     Inl e \<Rightarrow> Inl e
                   | Inr rows \<Rightarrow>
                       Inr \<lparr>env_data = rows, env_count = row ''num'', env_page = ?page,
                            env_pageSize = D, env_orderBy = orderBy pp\<rparr>)))"
    if db: "db = MYSQL \<or> db = POSTGRESQL" and plain: "CHR 0x7B \<notin> set query"
      "CHR 0x7B \<notin> set order_clause"
    for exec
  proof -
    have digits: "CHR 0x7B \<notin> set (string_of_nat n)" for n
      by (induction n rule: string_of_nat.induct)
        (subst string_of_nat.simps, auto simp: digit_char_def nth_Cons' )
    have "CHR 0x7B \<notin> set (string_of_int i)" for i
      using digits by (simp add: string_of_int_def)
    then have "CHR 0x7B \<notin> set limit_clause"
      by (simp add: limit_clause_def)
    with plain have 1: "CHR 0x7B \<notin> set (''select count(*) as num from ('' @ query @ '') t'')"
      and 2: "CHR 0x7B \<notin> set (query @ order_clause @ limit_clause)"
      by simp_all
    show ?thesis
      unfolding r rawQuery_plain [OF db 1] rawQuery_plain [OF db 2] by (rule refl)
  qed
  show ?thesis
    apply (rule exI [of _ "criteria ++ paging_args D pp"])
    apply (rule exI [of _ order_clause])
    apply (rule exI [of _ limit_clause])
    apply (intro conjI allI impI)
           apply (rule t)
          apply (rule s)
         apply (rule k [rule_format], assumption)
        apply (rule q)
       apply (rule order_clause_def)
      apply (rule limit_clause_def)
     apply (rule r)
    apply (rule d; blast)
    done
qed

theorem paged_zero_or_absent_size_uses_default_witness:
  "(pageSize \<lparr>page = Some 3, pageSize = None, orderBy = Some ''created_at'',
       sortDescending = Some True\<rparr> = None
      \<or> pageSize \<lparr>page = Some 3, pageSize = None, orderBy = Some ''created_at'',
       sortDescending = Some True\<rparr> = Some 0)
   \<and> safe_integer 10
   \<and> safe_integer (case page \<lparr>page = Some 3, pageSize = None, orderBy = Some ''created_at'',
       sortDescending = Some True\<rparr> of None \<Rightarrow> 1 | Some p \<Rightarrow> p)
   \<and> safe_integer (10 * ((case page \<lparr>page = Some 3, pageSize = None,
       orderBy = Some ''created_at'', sortDescending = Some True\<rparr>
       of None \<Rightarrow> 1 | Some p \<Rightarrow> p) - 1))
   \<and> pagedQuery 10 (\<lambda>m a. Inr (a ''take'', a ''skip'', a ''where'')) (\<lambda>m w. Inr w) ''user''
        [''where'' \<mapsto> Criterion ()]
        \<lparr>page = Some 3, pageSize = None, orderBy = Some ''created_at'',
          sortDescending = Some True\<rparr>
      = Inr \<lparr>env_data = (Some (Number 10), Some (Number 20), Some (Criterion ())),
             env_count = Some (Criterion ()), env_page = 3, env_pageSize = 10,
             env_orderBy = Some ''created_at''\<rparr>
   \<and> pagedRawQuery 10 MYSQL (\<lambda>q ps. Inr [\<lambda>k. Some q]) ''select 1 '' Map.empty
        \<lparr>page = Some 3, pageSize = None, orderBy = Some ''created_at'',
          sortDescending = Some True\<rparr>
      = Inr \<lparr>env_data
               = [\<lambda>k. Some (''select 1 order by created_at desc'' @ [CHR 0x0A]
                    @ ''limit 10 offset 20'')],
             env_count = Some ''select count(*) as num from (select 1 ) t'', env_page = 3,
             env_pageSize = 10, env_orderBy = Some ''created_at''\<rparr>"
proof -
  let ?pp = "\<lparr>page = Some 3, pageSize = None, orderBy = Some ''created_at'',
       sortDescending = Some True\<rparr>"
  let ?criteria = "[''where'' \<mapsto> Criterion ()] :: string \<rightharpoonup> unit arg"
  let ?findMany = "\<lambda>(m :: string) (a :: string \<rightharpoonup> unit arg).
      Inr (a ''take'', a ''skip'', a ''where'')
        :: error + unit arg option \<times> unit arg option \<times> unit arg option"
  let ?count_rows = "\<lambda>(m :: string) (w :: unit arg option). Inr w :: error + unit arg option"
  let ?exec = "\<lambda>(q :: string) (ps :: string option list).
      Inr [\<lambda>k. Some q] :: error + (string \<rightharpoonup> string) list"
  have h1: "pageSize ?pp = None \<or> pageSize ?pp = Some 0"
    by simp
  have h2: "safe_integer 10"
    by (simp add: safe_integer_def)
  have h3: "safe_integer (case page ?pp of None \<Rightarrow> 1 | Some p \<Rightarrow> p)"
    by (simp add: safe_integer_def)
  have h4: "safe_integer (10 * ((case page ?pp of None \<Rightarrow> 1 | Some p \<Rightarrow> p) - 1))"
    by (simp add: safe_integer_def)
  have num: "string_of_int 10 = ''10''" "string_of_int 20 = ''20''"
    by (simp_all add: string_of_int_def string_of_nat.simps digit_char_def)
  have my: "MYSQL = MYSQL \<or> MYSQL = POSTGRESQL"
    by simp
  let ?page = "(case page ?pp of None \<Rightarrow> 1 | Some p \<Rightarrow> p) :: int"
  let ?B = "\<lambda>(args :: string \<rightharpoonup> unit arg) order_clause limit_clause.
      args ''take'' = (if (0::int) < 10 then Some (Number 10) else ?criteria ''take'')
    \<and> args ''skip''
        = (if (0::int) < 10 then Some (Number (10 * (?page - 1))) else ?criteria ''skip'')
    \<and> (\<forall>k. k \<notin> set [''take'', ''skip'', ''orderBy''] \<longrightarrow> args k = ?criteria k)
    \<and> (\<forall>(findMany :: string \<Rightarrow> (string \<rightharpoonup> unit arg)
            \<Rightarrow> error + unit arg option \<times> unit arg option \<times> unit arg option)
          (count_rows :: string \<Rightarrow> unit arg option \<Rightarrow> error + unit arg option).
          pagedQuery 10 findMany count_rows ''user'' ?criteria ?pp
            = (case findMany ''user'' args of
                 Inl e \<Rightarrow> Inl e
               | Inr rows \<Rightarrow>
                   (case count_rows ''user'' (?criteria ''where'') of
                      Inl e \<Rightarrow> Inl e
                    | Inr n \<Rightarrow>
                        Inr \<lparr>env_data = rows, env_count = n, env_page = ?page,
                             env_pageSize = 10, env_orderBy = orderBy ?pp\<rparr>)))
    \<and> order_clause
        = (case orderBy ?pp of
             None \<Rightarrow> []
           | Some ob \<Rightarrow>
               if ob = [] then []
               else ''order by '' @ ob
                 @ (if sortDescending ?pp = Some True then '' desc'' else '' asc''))
    \<and> limit_clause
        = (if (0::int) < 10
           then (if order_clause = [] then [] else [CHR 0x0A])
             @ ''limit '' @ string_of_int 10 @ '' offset '' @ string_of_int (10 * (?page - 1))
           else [])
    \<and> (\<forall>exec :: string \<Rightarrow> string option list \<Rightarrow> error + (string \<rightharpoonup> string) list.
          pagedRawQuery 10 MYSQL exec ''select 1 '' Map.empty ?pp
            = (case rawQuery MYSQL exec (''select count(*) as num from ('' @ ''select 1 '' @ '') t'')
                      Map.empty of
                 Inl e \<Rightarrow> Inl e
               | Inr res \<Rightarrow>
                   (case res of
                      [] \<Rightarrow> Inl TypeError
                    | row # others \<Rightarrow>
                        (case rawQuery MYSQL exec (''select 1 '' @ order_clause @ limit_clause)
                                Map.empty of
                           Inl e \<Rightarrow> Inl e
                         | Inr rows \<Rightarrow>
                             Inr \<lparr>env_data = rows, env_count = row ''num'', env_page = ?page,
                                  env_pageSize = 10, env_orderBy = orderBy ?pp\<rparr>))))
    \<and> ((MYSQL = MYSQL \<or> MYSQL = POSTGRESQL) \<and> CHR 0x7B \<notin> set ''select 1 ''
          \<and> CHR 0x7B \<notin> set order_clause \<longrightarrow>
        (\<forall>exec :: string \<Rightarrow> string option list \<Rightarrow> error + (string \<rightharpoonup> string) list.
          pagedRawQuery 10 MYSQL exec ''select 1 '' Map.empty ?pp
            = (case exec (''select count(*) as num from ('' @ ''select 1 '' @ '') t'') [] of
                 Inl e \<Rightarrow> Inl e
               | Inr res \<Rightarrow>
                   (case res of
                      [] \<Rightarrow> Inl TypeError
                    | row # others \<Rightarrow>
                        (case exec (''select 1 '' @ order_clause @ limit_clause) [] of
                           Inl e \<Rightarrow> Inl e
                         | Inr rows \<Rightarrow>
                             Inr \<lparr>env_data = rows, env_count = row ''num'', env_page = ?page,
                                  env_pageSize = 10, env_orderBy = orderBy ?pp\<rparr>)))))"
  have "\<exists>args order_clause limit_clause. ?B args order_clause limit_clause"
    by (rule paged_zero_or_absent_size_uses_default
        [where pp = ?pp and D = 10 and criteria = ?criteria and model = "''user''"
          and db = MYSQL and query = "''select 1 ''"
          and queryParams = "Map.empty :: string \<rightharpoonup> string", OF h1 h2 h3 h4])
  then obtain args order_clause limit_clause where B: "?B args order_clause limit_clause"
    by (elim exE)
  note take = B [THEN conjunct1]
  note skip = B [THEN conjunct2, THEN conjunct1]
  note other = B [THEN conjunct2, THEN conjunct2, THEN conjunct1]
  note q = B [THEN conjunct2, THEN conjunct2, THEN conjunct2, THEN conjunct1, rule_format,
      of ?findMany ?count_rows]
  note oc = B [THEN conjunct2, THEN conjunct2, THEN conjunct2, THEN conjunct2, THEN conjunct1]
  note lc = B [THEN conjunct2, THEN conjunct2, THEN conjunct2, THEN conjunct2, THEN conjunct2,
      THEN conjunct1]
  note d = B [THEN conjunct2, THEN conjunct2, THEN conjunct2, THEN conjunct2, THEN conjunct2,
      THEN conjunct2, THEN conjunct2]
  from other have w: "args ''where'' = Some (Criterion ())"
    by simp
  from oc have oc': "order_clause = ''order by created_at desc''"
    by simp
  from lc oc' have lc': "limit_clause = [CHR 0x0A] @ ''limit 10 offset 20''"
    by (simp add: num)
  have a: "pagedQuery 10 ?findMany ?count_rows ''user'' ?criteria ?pp
      = Inr \<lparr>env_data = (Some (Number 10), Some (Number 20), Some (Criterion ())),
             env_count = Some (Criterion ()), env_page = 3, env_pageSize = 10,
             env_orderBy = Some ''created_at''\<rparr>"
    unfolding q using take skip w by simp
  have plain: "(MYSQL = MYSQL \<or> MYSQL = POSTGRESQL) \<and> CHR 0x7B \<notin> set ''select 1 ''
          \<and> CHR 0x7B \<notin> set order_clause"
    by (simp add: oc')
  have b: "pagedRawQuery 10 MYSQL ?exec ''select 1 '' Map.empty ?pp
      = Inr \<lparr>env_data
               = [\<lambda>k. Some (''select 1 order by created_at desc'' @ [CHR 0x0A]
                    @ ''limit 10 offset 20'')],
             env_count = Some ''select count(*) as num from (select 1 ) t'', env_page = 3,
             env_pageSize = 10, env_orderBy = Some ''created_at''\<rparr>"
    unfolding d [rule_format, OF plain, of ?exec] by (simp add: oc' lc')
  from h1 h2 h3 h4 a b show ?thesis
    by blast
qed

text \<open>
  C1 as stated fails: with the default 10, page 3 and the page size 0, the data query
  is restricted to 10 rows after the first 20, in both entry points.
\<close>

theorem paged_zero_size_counterexample:
  "pagedQuery 10 (\<lambda>m args. Inr (args ''take'', args ''skip'')) (\<lambda>m w. Inr (0::nat)) ''user''
      (Map.empty :: string \<rightharpoonup> unit arg)
      \<lparr>page = Some 3, pageSize = Some 0, orderBy = None, sortDescending = None\<rparr>
    = Inr \<lparr>env_data = (Some (Number 10), Some (Number 20)), env_count = 0, env_page = 3,
           env_pageSize = 10, env_orderBy = None\<rparr>
   \<and> pagedRawQuery 10 MYSQL (\<lambda>q ps. Inr [\<lambda>k. Some q]) ''select 1 '' Map.empty
      \<lparr>page = Some 3, pageSize = Some 0, orderBy = None, sortDescending = None\<rparr>
    = Inr \<lparr>env_data = [\<lambda>k. Some ''select 1 limit 10 offset 20''],
           env_count = Some ''select count(*) as num from (select 1 ) t'', env_page = 3,
           env_pageSize = 10, env_orderBy = None\<rparr>"
proof -
  have my: "MYSQL = MYSQL \<or> MYSQL = POSTGRESQL"
    by simp
  have num: "string_of_int 10 = ''10''" "string_of_int 20 = ''20''"
    by (simp_all add: string_of_int_def string_of_nat.simps digit_char_def)
  show ?thesis
    by (simp add: pagedQuery_def pagedRawQuery_def paging_args_def statements_def
        count_query_def effective_size_def effective_page_def truthy_def num
        rawQuery_plain [OF my])
qed

subsection \<open>Fragment generators\<close>

text \<open>
  C8, as amended. Six of the generators read nothing but the engine and their arguments.
  \<^verbatim>\<open>getDateSQL\<close> and \<^verbatim>\<open>getDateWeeklySQL\<close> also read, on MySQL, the UTC offset that the
  time zone has at the instant of the call: two calls with the same arguments and the
  same engine return the same text when the engine is not MySQL, or no time zone is
  given to \<^verbatim>\<open>getDateSQL\<close>, or the two readings of the offset agree.
\<close>

theorem date_fragments_repeatable:
  "((db \<noteq> MYSQL \<or> \<not> truthy timezone \<or> tzNow1 timezone = tzNow2 timezone) \<longrightarrow>
      getDateSQL db tzNow1 field unit timezone = getDateSQL db tzNow2 field unit timezone)
   \<and> ((db \<noteq> MYSQL \<or> tzNow1 timezone = tzNow2 timezone) \<longrightarrow>
      getDateWeeklySQL db tzNow1 field timezone = getDateWeeklySQL db tzNow2 field timezone)"
  by (auto simp: getDateSQL_def getDateWeeklySQL_def)

theorem date_fragments_repeatable_witness:
  "(\<lambda>z. ''+01:00'') (Some ''Europe/Berlin'')
      = (\<lambda>z. if z = Some ''Europe/Berlin'' then ''+01:00'' else ''+00:00'') (Some ''Europe/Berlin'')
   \<and> getDateSQL MYSQL (\<lambda>z. ''+01:00'') ''created_at'' ''hour'' (Some ''Europe/Berlin'')
       = getDateSQL MYSQL (\<lambda>z. if z = Some ''Europe/Berlin'' then ''+01:00'' else ''+00:00'')
           ''created_at'' ''hour'' (Some ''Europe/Berlin'')
   \<and> getDateWeeklySQL MYSQL (\<lambda>z. ''+01:00'') ''created_at'' (Some ''Europe/Berlin'')
       = getDateWeeklySQL MYSQL (\<lambda>z. if z = Some ''Europe/Berlin'' then ''+01:00'' else ''+00:00'')
           ''created_at'' (Some ''Europe/Berlin'')"
proof -
  have h: "(\<lambda>z. ''+01:00'') (Some ''Europe/Berlin'')
      = (\<lambda>z. if z = Some ''Europe/Berlin'' then ''+01:00'' else ''+00:00'') (Some ''Europe/Berlin'')"
    by simp
  note t = date_fragments_repeatable [of MYSQL "Some ''Europe/Berlin''" "\<lambda>z. ''+01:00''"
      "\<lambda>z. if z = Some ''Europe/Berlin'' then ''+01:00'' else ''+00:00''" "''created_at''" "''hour''"]
  from t [THEN conjunct1, rule_format, OF disjI2, OF disjI2, OF h]
    t [THEN conjunct2, rule_format, OF disjI2, OF h] h
  show ?thesis
    by blast
qed

text \<open>
  C8 as stated fails: on MySQL, with the zone America/New\_York, a call while the zone
  is at -05:00 and a call while it is at -04:00 return different fragments, with the
  same arguments and the same engine.
\<close>

theorem date_fragment_offset_counterexample:
  "getDateSQL MYSQL (\<lambda>z. ''-05:00'') ''created_at'' ''day'' (Some ''America/New_York'')
     \<noteq> getDateSQL MYSQL (\<lambda>z. ''-04:00'') ''created_at'' ''day'' (Some ''America/New_York'')
   \<and> getDateWeeklySQL MYSQL (\<lambda>z. ''-05:00'') ''created_at'' (Some ''America/New_York'')
     \<noteq> getDateWeeklySQL MYSQL (\<lambda>z. ''-04:00'') ''created_at'' (Some ''America/New_York'')"
  by (simp add: getDateSQL_def getDateWeeklySQL_def truthy_def)

subsection \<open>Date buckets\<close>

lemma zero_pad_0: "zero_pad 2 0 = ''00''"
  by (simp add: zero_pad_def string_of_nat.simps digit_char_def)

lemma zero_pad_1: "zero_pad 2 (Suc 0) = ''01''"
  by (simp add: zero_pad_def string_of_nat.simps digit_char_def)

lemma mysql_labels:
  "bucket_label MYSQL ''minute'' ts
     = Some (ymd ts @ ''T'' @ zero_pad 2 (ts_hour ts) @ '':'' @ zero_pad 2 (ts_minute ts) @ '':00'')"
  "bucket_label MYSQL ''hour'' ts = Some (ymd ts @ '' '' @ zero_pad 2 (ts_hour ts) @ '':00:00'')"
  "bucket_label MYSQL ''day'' ts = Some (ymd ts @ '' 00:00:00'')"
  "bucket_label MYSQL ''month'' ts
     = Some (zero_pad 4 (ts_year ts) @ ''-'' @ zero_pad 2 (ts_month ts) @ ''-01 00:00:00'')"
  "bucket_label MYSQL ''year'' ts = Some (zero_pad 4 (ts_year ts) @ ''-01-01 00:00:00'')"
  by (simp_all add: bucket_label_def MYSQL_DATE_FORMATS_def mysql_specifier_def ymd_def)

lemma postgresql_labels:
  "bucket_label POSTGRESQL ''minute'' ts
     = Some (ymd ts @ '' '' @ zero_pad 2 (ts_hour ts) @ '':'' @ zero_pad 2 (ts_minute ts) @ '':00'')"
  "bucket_label POSTGRESQL ''hour'' ts = Some (ymd ts @ '' '' @ zero_pad 2 (ts_hour ts) @ '':00:00'')"
  "bucket_label POSTGRESQL ''day'' ts = Some (ymd ts @ '' 00:00:00'')"
  "bucket_label POSTGRESQL ''month'' ts
     = Some (zero_pad 4 (ts_year ts) @ ''-'' @ zero_pad 2 (ts_month ts) @ ''-01 00:00:00'')"
  "bucket_label POSTGRESQL ''year'' ts = Some (zero_pad 4 (ts_year ts) @ ''-01-01 00:00:00'')"
  by (simp_all add: bucket_label_def POSTGRESQL_DATE_FORMATS_def date_trunc_def pg_to_char.simps
      ymd_def zero_pad_0)

lemma same_bucket_fields:
  assumes "date_trunc unit ts = date_trunc unit ts'"
  shows "unit = ''minute'' \<Longrightarrow> ts_year ts = ts_year ts' \<and> ts_month ts = ts_month ts'
      \<and> ts_day ts = ts_day ts' \<and> ts_hour ts = ts_hour ts' \<and> ts_minute ts = ts_minute ts'"
    and "unit = ''hour'' \<Longrightarrow> ts_year ts = ts_year ts' \<and> ts_month ts = ts_month ts'
      \<and> ts_day ts = ts_day ts' \<and> ts_hour ts = ts_hour ts'"
    and "unit = ''day'' \<Longrightarrow> ts_year ts = ts_year ts' \<and> ts_month ts = ts_month ts'
      \<and> ts_day ts = ts_day ts'"
    and "unit = ''month'' \<Longrightarrow> ts_year ts = ts_year ts' \<and> ts_month ts = ts_month ts'"
    and "unit = ''year'' \<Longrightarrow> ts_year ts = ts_year ts'"
proof -
  have f: "map_option g (date_trunc unit ts) = map_option g (date_trunc unit ts')" for g :: "timestamp \<Rightarrow> nat"
    using assms by simp
  show "unit = ''minute'' \<Longrightarrow> ts_year ts = ts_year ts' \<and> ts_month ts = ts_month ts'
      \<and> ts_day ts = ts_day ts' \<and> ts_hour ts = ts_hour ts' \<and> ts_minute ts = ts_minute ts'"
    using f [of ts_year] f [of ts_month] f [of ts_day] f [of ts_hour] f [of ts_minute]
    by (simp add: date_trunc_def)
  show "unit = ''hour'' \<Longrightarrow> ts_year ts = ts_year ts' \<and> ts_month ts = ts_month ts'
      \<and> ts_day ts = ts_day ts' \<and> ts_hour ts = ts_hour ts'"
    using f [of ts_year] f [of ts_month] f [of ts_day] f [of ts_hour]
    by (simp add: date_trunc_def)
  show "unit = ''day'' \<Longrightarrow> ts_year ts = ts_year ts' \<and> ts_month ts = ts_month ts'
      \<and> ts_day ts = ts_day ts'"
    using f [of ts_year] f [of ts_month] f [of ts_day]
    by (simp add: date_trunc_def)
  show "unit = ''month'' \<Longrightarrow> ts_year ts = ts_year ts' \<and> ts_month ts = ts_month ts'"
    using f [of ts_year] f [of ts_month]
    by (simp add: date_trunc_def)
  show "unit = ''year'' \<Longrightarrow> ts_year ts = ts_year ts'"
    using f [of ts_year]
    by (simp add: date_trunc_def)
qed

lemma same_bucket_same_label:
  assumes "unit \<in> set [''minute'', ''hour'', ''day'', ''month'', ''year'']"
    and "db = MYSQL \<or> db = POSTGRESQL"
    and "date_trunc unit ts = date_trunc unit ts'"
  shows "bucket_label db unit ts = bucket_label db unit ts' \<and> bucket_label db unit ts \<noteq> None"
  using assms(1,2) same_bucket_fields [OF assms(3)]
  by (auto simp: mysql_labels postgresql_labels ymd_def)

text \<open>
  The two tables, unit by unit. For the units hour, day, month and year they give the
  same string on both engines, with the components below the unit at their least value.
  For the unit minute both engines give the date, the hour and the minute followed by
  \<^verbatim>\<open>:00\<close>, but MySQL separates date and time by the letter T and PostgreSQL by a
  space. On either engine two timestamps of the same bucket give the same string.
\<close>

theorem bucket_labels_of_both_engines:
  "bucket_label MYSQL ''minute'' ts
     = Some (ymd ts @ ''T'' @ zero_pad 2 (ts_hour ts) @ '':'' @ zero_pad 2 (ts_minute ts) @ '':00'')
   \<and> bucket_label POSTGRESQL ''minute'' ts
     = Some (ymd ts @ '' '' @ zero_pad 2 (ts_hour ts) @ '':'' @ zero_pad 2 (ts_minute ts) @ '':00'')
   \<and> bucket_label MYSQL ''hour'' ts = Some (ymd ts @ '' '' @ zero_pad 2 (ts_hour ts) @ '':00:00'')
   \<and> bucket_label MYSQL ''day'' ts = Some (ymd ts @ '' 00:00:00'')
   \<and> bucket_label MYSQL ''month'' ts
     = Some (zero_pad 4 (ts_year ts) @ ''-'' @ zero_pad 2 (ts_month ts) @ ''-01 00:00:00'')
   \<and> bucket_label MYSQL ''year'' ts = Some (zero_pad 4 (ts_year ts) @ ''-01-01 00:00:00'')
   \<and> (unit \<in> set [''hour'', ''day'', ''month'', ''year'']
        \<longrightarrow> bucket_label POSTGRESQL unit ts = bucket_label MYSQL unit ts)
   \<and> (unit \<in> set [''minute'', ''hour'', ''day'', ''month'', ''year'']
        \<and> (db = MYSQL \<or> db = POSTGRESQL) \<and> date_trunc unit ts = date_trunc unit ts'
        \<longrightarrow> bucket_label db unit ts = bucket_label db unit ts' \<and> bucket_label db unit ts \<noteq> None)"
  using same_bucket_same_label [of unit db ts ts']
  by (auto simp: mysql_labels postgresql_labels)

theorem bucket_labels_of_both_engines_witness:
  "''hour'' \<in> set [''hour'', ''day'', ''month'', ''year'']
   \<and> ''hour'' \<in> set [''minute'', ''hour'', ''day'', ''month'', ''year'']
   \<and> (POSTGRESQL = MYSQL \<or> POSTGRESQL = POSTGRESQL)
   \<and> date_trunc ''hour'' \<lparr>ts_year = 2024, ts_month = 1, ts_day = 2, ts_hour = 3, ts_minute = 4,
        ts_second = 5\<rparr>
     = date_trunc ''hour'' \<lparr>ts_year = 2024, ts_month = 1, ts_day = 2, ts_hour = 3, ts_minute = 59,
        ts_second = 30\<rparr>
   \<and> bucket_label POSTGRESQL ''hour'' \<lparr>ts_year = 2024, ts_month = 1, ts_day = 2, ts_hour = 3,
        ts_minute = 4, ts_second = 5\<rparr>
     = bucket_label MYSQL ''hour'' \<lparr>ts_year = 2024, ts_month = 1, ts_day = 2, ts_hour = 3,
        ts_minute = 4, ts_second = 5\<rparr>
   \<and> bucket_label POSTGRESQL ''hour'' \<lparr>ts_year = 2024, ts_month = 1, ts_day = 2, ts_hour = 3,
        ts_minute = 4, ts_second = 5\<rparr>
     = bucket_label POSTGRESQL ''hour'' \<lparr>ts_year = 2024, ts_month = 1, ts_day = 2, ts_hour = 3,
        ts_minute = 59, ts_second = 30\<rparr>
   \<and> bucket_label MYSQL ''hour'' \<lparr>ts_year = 2024, ts_month = 1, ts_day = 2, ts_hour = 3,
        ts_minute = 4, ts_second = 5\<rparr> = Some ''2024-01-02 03:00:00''"
proof -
  let ?a = "\<lparr>ts_year = 2024, ts_month = 1, ts_day = 2, ts_hour = 3, ts_minute = 4, ts_second = 5\<rparr>"
  let ?b = "\<lparr>ts_year = 2024, ts_month = 1, ts_day = 2, ts_hour = 3, ts_minute = 59, ts_second = 30\<rparr>"
  have u: "''hour'' \<in> set [''hour'', ''day'', ''month'', ''year'']"
    and u': "''hour'' \<in> set [''minute'', ''hour'', ''day'', ''month'', ''year'']"
    and pg: "POSTGRESQL = MYSQL \<or> POSTGRESQL = POSTGRESQL"
    by simp_all
  have tr: "date_trunc ''hour'' ?a = date_trunc ''hour'' ?b"
    by (simp add: date_trunc_def)
  have pad: "zero_pad 4 2024 = ''2024''" "zero_pad 2 1 = ''01''" "zero_pad 2 2 = ''02''"
    "zero_pad 2 3 = ''03''"
    by (simp_all add: zero_pad_def string_of_nat.simps digit_char_def)
  note t = bucket_labels_of_both_engines [of ?a "''hour''" POSTGRESQL ?b]
  have 1: "bucket_label POSTGRESQL ''hour'' ?a = bucket_label MYSQL ''hour'' ?a"
    using t u by blast
  have 2: "bucket_label POSTGRESQL ''hour'' ?a = bucket_label POSTGRESQL ''hour'' ?b"
    using t u' pg tr by blast
  have 3: "bucket_label MYSQL ''hour'' ?a = Some ''2024-01-02 03:00:00''"
    using t [THEN conjunct2, THEN conjunct2, THEN conjunct1]
    by (simp add: ymd_def pad zero_pad_1)
  from u u' pg tr 1 2 3 show ?thesis
    by blast
qed

text \<open>
  C2. The claim fails on the code for the unit minute. \<^verbatim>\<open>getDateSQL\<close> embeds the
  entry of the engine's table in the fragment; the MySQL entry has the letter T between
  date and time where the PostgreSQL entry, and every other entry of both tables, has
  a space. On the timestamp 2024-01-02 03:04:05 the two fragments give two different
  strings.
\<close>

theorem minute_label_mismatch:
  "getDateSQL MYSQL (\<lambda>z. ''+00:00'') ''created_at'' ''minute'' None
     = Some (''date_format(created_at, '' @ [CHR 0x27] @ ''%Y-%m-%dT%H:%i:00'' @ [CHR 0x27]
         @ '')'')
   \<and> getDateSQL POSTGRESQL (\<lambda>z. ''+00:00'') ''created_at'' ''minute'' None
     = Some (''to_char(date_trunc('' @ [CHR 0x27] @ ''minute'' @ [CHR 0x27] @ '', created_at), ''
         @ [CHR 0x27] @ ''YYYY-MM-DD HH24:MI:00'' @ [CHR 0x27] @ '')'')
   \<and> mysql_date_format ''%Y-%m-%dT%H:%i:00''
       \<lparr>ts_year = 2024, ts_month = 1, ts_day = 2, ts_hour = 3, ts_minute = 4, ts_second = 5\<rparr>
     = ''2024-01-02T03:04:00''
   \<and> map_option (pg_to_char ''YYYY-MM-DD HH24:MI:00'')
       (date_trunc ''minute''
         \<lparr>ts_year = 2024, ts_month = 1, ts_day = 2, ts_hour = 3, ts_minute = 4, ts_second = 5\<rparr>)
     = Some ''2024-01-02 03:04:00''
   \<and> bucket_label MYSQL ''minute''
      \<lparr>ts_year = 2024, ts_month = 1, ts_day = 2, ts_hour = 3, ts_minute = 4, ts_second = 5\<rparr>
     = Some ''2024-01-02T03:04:00''
   \<and> bucket_label POSTGRESQL ''minute''
      \<lparr>ts_year = 2024, ts_month = 1, ts_day = 2, ts_hour = 3, ts_minute = 4, ts_second = 5\<rparr>
     = Some ''2024-01-02 03:04:00''"
proof -
  let ?ts = "\<lparr>ts_year = 2024, ts_month = 1, ts_day = 2, ts_hour = 3, ts_minute = 4,
      ts_second = 5\<rparr>"
  have pad: "zero_pad 4 2024 = ''2024''" "zero_pad 2 1 = ''01''" "zero_pad 2 2 = ''02''"
    "zero_pad 2 3 = ''03''" "zero_pad 2 4 = ''04''"
    by (simp_all add: zero_pad_def string_of_nat.simps digit_char_def)
  have fragments: "getDateSQL MYSQL (\<lambda>z. ''+00:00'') ''created_at'' ''minute'' None
       = Some (''date_format(created_at, '' @ [CHR 0x27] @ ''%Y-%m-%dT%H:%i:00'' @ [CHR 0x27]
           @ '')'')"
    "getDateSQL POSTGRESQL (\<lambda>z. ''+00:00'') ''created_at'' ''minute'' None
       = Some (''to_char(date_trunc('' @ [CHR 0x27] @ ''minute'' @ [CHR 0x27] @ '', created_at), ''
           @ [CHR 0x27] @ ''YYYY-MM-DD HH24:MI:00'' @ [CHR 0x27] @ '')'')"
    by (simp_all add: getDateSQL_def truthy_def table_read_def MYSQL_DATE_FORMATS_def
        POSTGRESQL_DATE_FORMATS_def)
  have labels: "bucket_label MYSQL ''minute'' ?ts = Some ''2024-01-02T03:04:00''"
    "bucket_label POSTGRESQL ''minute'' ?ts = Some ''2024-01-02 03:04:00''"
    by (simp_all add: mysql_labels postgresql_labels ymd_def pad zero_pad_1)
  have engines: "mysql_date_format ''%Y-%m-%dT%H:%i:00'' ?ts = ''2024-01-02T03:04:00''"
    "map_option (pg_to_char ''YYYY-MM-DD HH24:MI:00'') (date_trunc ''minute'' ?ts)
       = Some ''2024-01-02 03:04:00''"
    using labels
    by (simp_all add: bucket_label_def MYSQL_DATE_FORMATS_def POSTGRESQL_DATE_FORMATS_def
        date_trunc_def)
  from fragments engines labels show ?thesis
    by blast
qed

subsection \<open>The filter compiler\<close>

lemma filter_query_step_append:
  "filter_query_step db f arr = arr @ filter_query_step db f []"
  by (simp add: filter_query_step_def Let_def split: option.splits)

lemma fold_filter_query_step:
  "fold (filter_query_step db) fs arr
     = arr @ concat (map (\<lambda>f. filter_query_step db f []) fs)"
proof (induction fs arbitrary: arr)
  case Nil
  then show ?case by simp
next
  case (Cons f fs)
  show ?case
    using filter_query_step_append [of db f arr] by (simp add: Cons.IH)
qed

lemma getFilterQuery_lines_split:
  assumes "filtersToArray filters (Some options) = before @ f # after"
  shows "getFilterQuery_lines db filtersToArray filters options
     = fold (filter_query_step db) before [] @ filter_query_step db f []
       @ fold (filter_query_step db) after []"
proof -
  have "fold (filter_query_step db) (before @ f # after) []
      = fold (filter_query_step db) after
          (filter_query_step db f (fold (filter_query_step db) before []))"
    by simp
  also have "\<dots> = filter_query_step db f (fold (filter_query_step db) before [])
      @ fold (filter_query_step db) after []"
    using fold_filter_query_step [of db after]
    by (metis append_Nil)
  also have "filter_query_step db f (fold (filter_query_step db) before [])
      = fold (filter_query_step db) before [] @ filter_query_step db f []"
    by (rule filter_query_step_append)
  finally show ?thesis
    by (simp add: getFilterQuery_lines_def assms)
qed






text \<open>
  C10. For a filter with a column and an operator outside the four that
  \<^verbatim>\<open>mapFilter\<close> knows, \<^verbatim>\<open>mapFilter\<close> returns the empty string and the query still gets
  a line that is only \<^verbatim>\<open>and \<close> (followed by the exclusion line when the filter is
  named referrer): the filter is neither skipped nor refused.
\<close>

theorem unknown_operator_emits_bare_and:
  assumes "operator f = other_operator x" and "column f = Some col" and "col \<noteq> []"
  shows "mapFilter db col (operator f) (name f) [] = []
     \<and> filter_query_step db f arr
         = arr @ ''and '' # (if name f = ''referrer'' then [referrer_exclusion] else [])
     \<and> (filtersToArray filters (Some options) = before @ f # after \<longrightarrow>
          getFilterQuery_lines db filtersToArray filters options
            = fold (filter_query_step db) before []
              @ ''and '' # (if name f = ''referrer'' then [referrer_exclusion] else [])
              @ fold (filter_query_step db) after [])"
proof -
  have step: "filter_query_step db f arr
      = arr @ ''and '' # (if name f = ''referrer'' then [referrer_exclusion] else [])" for arr
    using assms by (simp add: filter_query_step_def mapFilter_def)
  have "getFilterQuery_lines db filtersToArray filters options
      = fold (filter_query_step db) before []
        @ ''and '' # (if name f = ''referrer'' then [referrer_exclusion] else [])
        @ fold (filter_query_step db) after []"
    if "filtersToArray filters (Some options) = before @ f # after"
    using getFilterQuery_lines_split
      [where filtersToArray = filtersToArray and filters = filters and options = options
        and before = before and f = f and after = after and db = db] that step [of "[]"]
    by simp
  with step assms show ?thesis
    by (simp add: mapFilter_def)
qed

theorem unknown_operator_emits_bare_and_witness:
  "operator \<lparr>name = ''country'', column = Some ''session.country'',
       operator = other_operator ''gt'', fvalue = SStr ''DE''\<rparr> = other_operator ''gt''
   \<and> column \<lparr>name = ''country'', column = Some ''session.country'',
       operator = other_operator ''gt'', fvalue = SStr ''DE''\<rparr> = Some ''session.country''
   \<and> ''session.country'' \<noteq> []
   \<and> getFilterQuery MYSQL
        (\<lambda>fs os. [\<lparr>name = ''url'', column = Some ''url_path'', operator = equals,
             fvalue = SStr ''/''\<rparr>,
           \<lparr>name = ''country'', column = Some ''session.country'',
             operator = other_operator ''gt'', fvalue = SStr ''DE''\<rparr>])
        \<lparr>startDate = None, endDate = None, filter_keys = [''url'', ''country'']\<rparr>
        \<lparr>joinSession = False\<rparr>
     = ''and url_path = {{url}}'' @ [CHR 0x0A] @ ''and ''"
proof -
  let ?f = "\<lparr>name = ''country'', column = Some ''session.country'',
       operator = other_operator ''gt'', fvalue = SStr ''DE''\<rparr>"
  let ?g = "\<lparr>name = ''url'', column = Some ''url_path'', operator = equals,
             fvalue = SStr ''/''\<rparr>"
  let ?fta = "\<lambda>(fs :: query_filters) (os :: query_options option). [?g, ?f]"
  let ?filters = "\<lparr>startDate = None, endDate = None, filter_keys = [''url'', ''country'']\<rparr>"
  have h: "operator ?f = other_operator ''gt''" "column ?f = Some ''session.country''"
    "''session.country'' \<noteq> []"
    by simp_all
  note t = unknown_operator_emits_bare_and [OF h, of MYSQL "[]" ?fta ?filters
      "\<lparr>joinSession = False\<rparr>" "[?g]" "[]"]
  have "getFilterQuery_lines MYSQL ?fta ?filters \<lparr>joinSession = False\<rparr>
      = [''and url_path = {{url}}'', ''and '']"
    using t by (simp add: filter_query_step_def mapFilter_def)
  with h show ?thesis
    by (simp add: getFilterQuery_def)
qed

subsection \<open>The parameter map of \<^verbatim>\<open>parseFilters\<close>\<close>

lemma parseFilters_found:
  assumes "fetchWebsite websiteId = Inr (Some w)"
  shows "\<exists>r. parseFilters db fetchWebsite filtersToArray SESSION_COLUMNS websiteId filters options
            = Inr r
     \<and> pf_params r = (getFilterParams filtersToArray filters)
          (''websiteId'' \<mapsto> PVal (SStr websiteId),
           ''startDate'' \<mapsto> date_param (maxDate (startDate filters) (resetAt w)),
           ''websiteDomain'' \<mapsto> PVal (SStr (domain w)))"
  using assms by (simp add: parseFilters_def Let_def)

text \<open>
  C4. When the website is found, \<^verbatim>\<open>parseFilters\<close> returns, and in its parameter map
  \<^verbatim>\<open>startDate\<close> is the later of the requested start and the reset date: the reset date
  when the request is earlier, the requested date when it is not, and the one that is
  present when the other is absent. The map has \<^verbatim>\<open>websiteId\<close> and \<^verbatim>\<open>websiteDomain\<close>.
\<close>

theorem parseFilters_clamps_startDate:
  assumes "fetchWebsite websiteId = Inr (Some w)"
  shows "\<exists>r. parseFilters db fetchWebsite filtersToArray SESSION_COLUMNS websiteId filters options
            = Inr r
     \<and> pf_params r ''startDate'' = Some (date_param (maxDate (startDate filters) (resetAt w)))
     \<and> (\<forall>s t. startDate filters = Some s \<and> resetAt w = Some t \<and> s < t
           \<longrightarrow> pf_params r ''startDate'' = Some (PDate t))
     \<and> (\<forall>s t. startDate filters = Some s \<and> resetAt w = Some t \<and> t \<le> s
           \<longrightarrow> pf_params r ''startDate'' = Some (PDate s))
     \<and> (\<forall>s. startDate filters = Some s \<and> resetAt w = None
           \<longrightarrow> pf_params r ''startDate'' = Some (PDate s))
     \<and> (\<forall>t. startDate filters = None \<and> resetAt w = Some t
           \<longrightarrow> pf_params r ''startDate'' = Some (PDate t))
     \<and> pf_params r ''websiteId'' = Some (PVal (SStr websiteId))
     \<and> pf_params r ''websiteDomain'' = Some (PVal (SStr (domain w)))"
proof -
  from parseFilters_found
    [where fetchWebsite = fetchWebsite and websiteId = websiteId and w = w and db = db
      and filtersToArray = filtersToArray and SESSION_COLUMNS = SESSION_COLUMNS
      and filters = filters and options = options, OF assms]
  obtain r where r: "parseFilters db fetchWebsite filtersToArray SESSION_COLUMNS websiteId filters
      options = Inr r"
    and p: "pf_params r = (getFilterParams filtersToArray filters)
          (''websiteId'' \<mapsto> PVal (SStr websiteId),
           ''startDate'' \<mapsto> date_param (maxDate (startDate filters) (resetAt w)),
           ''websiteDomain'' \<mapsto> PVal (SStr (domain w)))"
    by blast
  have "pf_params r ''startDate'' = Some (date_param (maxDate (startDate filters) (resetAt w)))"
    and "pf_params r ''websiteId'' = Some (PVal (SStr websiteId))"
    and "pf_params r ''websiteDomain'' = Some (PVal (SStr (domain w)))"
    by (simp_all add: p)
  with r show ?thesis
    by (auto simp: maxDate_def date_param_def max_def)
qed

theorem parseFilters_clamps_startDate_witness:
  "(\<lambda>i. Inr (Some \<lparr>domain = ''example.com'', resetAt = Some 2000\<rparr>)) ''w1''
     = (Inr (Some \<lparr>domain = ''example.com'', resetAt = Some 2000\<rparr>) :: error + website option)
   \<and> startDate \<lparr>startDate = Some 1000, endDate = None, filter_keys = []\<rparr> = Some 1000
   \<and> resetAt \<lparr>domain = ''example.com'', resetAt = Some 2000\<rparr> = Some 2000
   \<and> (1000 :: int) < 2000
   \<and> (\<exists>r. parseFilters MYSQL (\<lambda>i. Inr (Some \<lparr>domain = ''example.com'', resetAt = Some 2000\<rparr>))
          (\<lambda>fs os. []) [] ''w1'' \<lparr>startDate = Some 1000, endDate = None, filter_keys = []\<rparr>
          \<lparr>joinSession = False\<rparr> = Inr r
        \<and> pf_params r ''startDate'' = Some (PDate 2000)
        \<and> pf_params r ''websiteId'' = Some (PVal (SStr ''w1''))
        \<and> pf_params r ''websiteDomain'' = Some (PVal (SStr ''example.com'')))"
proof -
  let ?w = "\<lparr>domain = ''example.com'', resetAt = Some 2000\<rparr>"
  let ?fetch = "\<lambda>i :: string. Inr (Some ?w) :: error + website option"
  let ?filters = "\<lparr>startDate = Some 1000, endDate = None, filter_keys = []\<rparr>"
  have h: "?fetch ''w1'' = Inr (Some ?w)"
    by simp
  from parseFilters_clamps_startDate
    [where fetchWebsite = ?fetch and websiteId = "''w1''" and w = ?w and db = MYSQL
      and filtersToArray = "\<lambda>fs os. []" and SESSION_COLUMNS = "[]" and filters = ?filters
      and options = "\<lparr>joinSession = False\<rparr>", OF h]
  show ?thesis
    by auto
qed

text \<open>
  C9. When the website is found, the three keys \<^verbatim>\<open>websiteId\<close>, \<^verbatim>\<open>startDate\<close> and
  \<^verbatim>\<open>websiteDomain\<close> of the parameter map hold the computed values whatever the filters
  are, also when a filter has one of these names; every other key is as
  \<^verbatim>\<open>getFilterParams\<close> gives it.
\<close>

theorem parseFilters_reserved_keys:
  assumes "fetchWebsite websiteId = Inr (Some w)"
  shows "\<exists>r. parseFilters db fetchWebsite filtersToArray SESSION_COLUMNS websiteId filters options
            = Inr r
     \<and> pf_params r ''websiteId'' = Some (PVal (SStr websiteId))
     \<and> pf_params r ''startDate'' = Some (date_param (maxDate (startDate filters) (resetAt w)))
     \<and> pf_params r ''websiteDomain'' = Some (PVal (SStr (domain w)))
     \<and> (\<forall>k. k \<notin> set [''websiteId'', ''startDate'', ''websiteDomain'']
           \<longrightarrow> pf_params r k = getFilterParams filtersToArray filters k)"
proof -
  from parseFilters_found
    [where fetchWebsite = fetchWebsite and websiteId = websiteId and w = w and db = db
      and filtersToArray = filtersToArray and SESSION_COLUMNS = SESSION_COLUMNS
      and filters = filters and options = options, OF assms]
  obtain r where r: "parseFilters db fetchWebsite filtersToArray SESSION_COLUMNS websiteId filters
      options = Inr r"
    and p: "pf_params r = (getFilterParams filtersToArray filters)
          (''websiteId'' \<mapsto> PVal (SStr websiteId),
           ''startDate'' \<mapsto> date_param (maxDate (startDate filters) (resetAt w)),
           ''websiteDomain'' \<mapsto> PVal (SStr (domain w)))"
    by blast
  have "pf_params r ''startDate'' = Some (date_param (maxDate (startDate filters) (resetAt w)))"
    and "pf_params r ''websiteId'' = Some (PVal (SStr websiteId))"
    and "pf_params r ''websiteDomain'' = Some (PVal (SStr (domain w)))"
    and "\<forall>k. k \<notin> set [''websiteId'', ''startDate'', ''websiteDomain'']
           \<longrightarrow> pf_params r k = getFilterParams filtersToArray filters k"
    by (simp_all add: p)
  with r show ?thesis
    by blast
qed

theorem parseFilters_reserved_keys_witness:
  "(\<lambda>i. Inr (Some \<lparr>domain = ''example.com'', resetAt = None\<rparr>)) ''w1''
     = (Inr (Some \<lparr>domain = ''example.com'', resetAt = None\<rparr>) :: error + website option)
   \<and> getFilterParams
        (\<lambda>fs os. [\<lparr>name = ''websiteId'', column = None, operator = equals, fvalue = SStr ''other''\<rparr>,
                  \<lparr>name = ''websiteDomain'', column = None, operator = contains, fvalue = SStr ''evil''\<rparr>,
                  \<lparr>name = ''startDate'', column = None, operator = equals, fvalue = SNum 1\<rparr>,
                  \<lparr>name = ''os'', column = Some ''os'', operator = equals, fvalue = SStr ''Linux''\<rparr>])
        \<lparr>startDate = Some 1000, endDate = None, filter_keys = []\<rparr> ''websiteId''
     = Some (PVal (SStr ''other''))
   \<and> (\<exists>r. parseFilters MYSQL (\<lambda>i. Inr (Some \<lparr>domain = ''example.com'', resetAt = None\<rparr>))
        (\<lambda>fs os. [\<lparr>name = ''websiteId'', column = None, operator = equals, fvalue = SStr ''other''\<rparr>,
                  \<lparr>name = ''websiteDomain'', column = None, operator = contains, fvalue = SStr ''evil''\<rparr>,
                  \<lparr>name = ''startDate'', column = None, operator = equals, fvalue = SNum 1\<rparr>,
                  \<lparr>name = ''os'', column = Some ''os'', operator = equals, fvalue = SStr ''Linux''\<rparr>])
        [] ''w1'' \<lparr>startDate = Some 1000, endDate = None, filter_keys = []\<rparr>
        \<lparr>joinSession = False\<rparr> = Inr r
      \<and> pf_params r ''websiteId'' = Some (PVal (SStr ''w1''))
      \<and> pf_params r ''startDate'' = Some (PDate 1000)
      \<and> pf_params r ''websiteDomain'' = Some (PVal (SStr ''example.com''))
      \<and> pf_params r ''os'' = Some (PVal (SStr ''Linux'')))"
proof -
  let ?w = "\<lparr>domain = ''example.com'', resetAt = None\<rparr>"
  let ?fetch = "\<lambda>i :: string. Inr (Some ?w) :: error + website option"
  let ?filters = "\<lparr>startDate = Some 1000, endDate = None, filter_keys = []\<rparr>"
  let ?fta = "\<lambda>(fs :: query_filters) (os :: query_options option).
      [\<lparr>name = ''websiteId'', column = None, operator = equals, fvalue = SStr ''other''\<rparr>,
       \<lparr>name = ''websiteDomain'', column = None, operator = contains, fvalue = SStr ''evil''\<rparr>,
       \<lparr>name = ''startDate'', column = None, operator = equals, fvalue = SNum 1\<rparr>,
       \<lparr>name = ''os'', column = Some ''os'', operator = equals, fvalue = SStr ''Linux''\<rparr>]"
  have h: "?fetch ''w1'' = Inr (Some ?w)"
    by simp
  have g: "getFilterParams ?fta ?filters ''websiteId'' = Some (PVal (SStr ''other''))"
    "getFilterParams ?fta ?filters ''os'' = Some (PVal (SStr ''Linux''))"
    by (simp_all add: getFilterParams_def filter_param_step_def)
  from parseFilters_reserved_keys
    [where fetchWebsite = ?fetch and websiteId = "''w1''" and w = ?w and db = MYSQL
      and filtersToArray = ?fta and SESSION_COLUMNS = "[]" and filters = ?filters
      and options = "\<lparr>joinSession = False\<rparr>", OF h]
  obtain r where r: "parseFilters MYSQL ?fetch ?fta [] ''w1'' ?filters \<lparr>joinSession = False\<rparr> = Inr r"
    and 1: "pf_params r ''websiteId'' = Some (PVal (SStr ''w1''))"
    and 2: "pf_params r ''startDate'' = Some (date_param (maxDate (startDate ?filters) (resetAt ?w)))"
    and 3: "pf_params r ''websiteDomain'' = Some (PVal (SStr (domain ?w)))"
    and 4: "\<forall>k. k \<notin> set [''websiteId'', ''startDate'', ''websiteDomain'']
           \<longrightarrow> pf_params r k = getFilterParams ?fta ?filters k"
    by blast
  from 4 have "pf_params r ''os'' = getFilterParams ?fta ?filters ''os''"
    by simp
  with r 1 2 3 g h show ?thesis
    by (simp add: maxDate_def date_param_def)
qed

end
